theory Spec2Isabelle
  imports Complex_Main
begin

section \<open>Data model\<close>

text \<open>
  The entities of \<^verbatim>\<open>backend/app/models.py\<close> that the safety service and the alert
  routes read or write. SQLAlchemy column names are kept, with a prefix per table because
  record fields share one name space. A float value is a real number (every finite double
  is one) or the one special value the code produces itself, \<^verbatim>\<open>float('inf')\<close>;
  coordinates are the finite numbers that the request schema admits. What the machine's
  rounded arithmetic makes of the distance formula is not fixed here: the distance routine
  is an argument of everything that calls it (see the section on GeoMath). A
  \<^verbatim>\<open>datetime\<close> is an integer count of microseconds, its resolution; string
  columns are strings. The trip's threshold column has the default 2.0 and is taken as
  always set.
\<close>

datatype pyfloat = Fin real | PInf

text \<open>Python's \<^verbatim>\<open><\<close> and \<^verbatim>\<open>></\<close> on floats, with \<^verbatim>\<open>inf\<close> above every finite value.\<close>

fun fl_less :: "pyfloat \<Rightarrow> pyfloat \<Rightarrow> bool" where
  "fl_less (Fin x) (Fin y) = (x < y)"
| "fl_less (Fin x) PInf = True"
| "fl_less PInf _ = False"

definition fl_greater :: "pyfloat \<Rightarrow> pyfloat \<Rightarrow> bool" where
  "fl_greater x y = fl_less y x"

type_synonym datetime = int

definition minutes :: "int \<Rightarrow> int" where
  "minutes n = n * 60000000"

definition hours :: "int \<Rightarrow> int" where
  "hours n = n * 3600000000"

record trip =
  trip_id :: nat
  monitoring_enabled :: bool
  deviation_threshold_km :: real

record planned_location =
  pl_id :: nat
  pl_latitude :: real
  pl_longitude :: real
  pl_radius_meters :: int
  pl_is_accommodation :: bool
  pl_trip_id :: nat

record location_update =
  lu_id :: nat
  lu_latitude :: real
  lu_longitude :: real
  lu_timestamp :: datetime
  lu_user_id :: nat
  lu_trip_id :: nat

record safety_alert =
  alert_id :: nat
  alert_type :: string
  status :: string
  title :: string
  latitude :: real
  longitude :: real
  distance_from_planned_km :: "pyfloat option"
  triggered_at :: datetime
  response_deadline :: datetime
  responded_at :: "datetime option"
  response_message :: "string option"
  user_id :: nat
  alert_trip_id :: nat

text \<open>
  What a request handler sees of the outside: the three tables, and the system clock as
  the sequence of values that successive calls of \<^verbatim>\<open>datetime.utcnow()\<close> return,
  with the number of calls made so far.
\<close>

record world =
  planned_locations :: "planned_location list"
  location_updates :: "location_update list"
  safety_alerts :: "safety_alert list"
  clock :: "nat \<Rightarrow> datetime"
  ticks :: nat

datatype error = ValueError | HTTPException nat string

definition utcnow :: "world \<Rightarrow> datetime \<times> world" where
  "utcnow w = (clock w (ticks w), w\<lparr>ticks := Suc (ticks w)\<rparr>)"

text \<open>
  \<^verbatim>\<open>db.add(alert); db.commit(); db.refresh(alert)\<close>: the row is appended with a
  fresh primary key, and the refreshed object carries that key.
\<close>

definition fresh_alert_id :: "world \<Rightarrow> nat" where
  "fresh_alert_id w = Suc (fold max (map alert_id (safety_alerts w)) 0)"

definition add_alert :: "safety_alert \<Rightarrow> world \<Rightarrow> safety_alert \<times> world" where
  "add_alert a w =
     (let a' = a\<lparr>alert_id := fresh_alert_id w\<rparr>
      in (a', w\<lparr>safety_alerts := safety_alerts w @ [a']\<rparr>))"

section \<open>GeoMath\<close>

text \<open>
  \<^verbatim>\<open>SafetyMonitor.calculate_distance_km\<close> is floating-point code: on machine doubles
  every operation rounds, the library's \<^verbatim>\<open>sin\<close>, \<^verbatim>\<open>cos\<close> and
  \<^verbatim>\<open>atan2\<close> are approximations, and rounding can lift the haversine term above 1,
  where \<^verbatim>\<open>math.sqrt(1 - a)\<close> raises \<^verbatim>\<open>ValueError\<close>. Its callers use it
  only through the value it returns or the error it raises, so they are modelled with the
  routine as an argument of this type, and what is proved of them holds for the routine as
  the machine runs it.
\<close>

type_synonym distance_routine = "real \<Rightarrow> real \<Rightarrow> real \<Rightarrow> real \<Rightarrow> error + real"

text \<open>
  The definitions of this section are the exact reading of the routine: the source's
  formula, line by line, in real arithmetic without rounding.
\<close>

definition radians :: "real \<Rightarrow> real" where
  "radians x = x * pi / 180"

text \<open>\<^verbatim>\<open>math.sqrt\<close> raises \<^verbatim>\<open>ValueError\<close> below zero.\<close>

definition math_sqrt :: "real \<Rightarrow> error + real" where
  "math_sqrt x = (if x < 0 then Inl ValueError else Inr (sqrt x))"

text \<open>\<^verbatim>\<open>math.atan2(y, x)\<close>: the angle of the point \<open>(x, y)\<close>, in \<open>(-pi, pi]\<close>.\<close>

definition atan2 :: "real \<Rightarrow> real \<Rightarrow> real" where
  "atan2 y x =
     (if 0 < x then arctan (y / x)
      else if x < 0 then (if 0 \<le> y then arctan (y / x) + pi else arctan (y / x) - pi)
      else if 0 < y then pi / 2
      else if y < 0 then - (pi / 2)
      else 0)"

text \<open>The haversine term \<^verbatim>\<open>a\<close> of \<^verbatim>\<open>calculate_distance_km\<close>.\<close>

definition haversine_a :: "real \<Rightarrow> real \<Rightarrow> real \<Rightarrow> real \<Rightarrow> real" where
  "haversine_a lat1 lon1 lat2 lon2 =
     (let lat1_rad = radians lat1;
          lat2_rad = radians lat2;
          delta_lat = radians (lat2 - lat1);
          delta_lon = radians (lon2 - lon1)
      in (sin (delta_lat / 2))\<^sup>2 +
         cos lat1_rad * cos lat2_rad * (sin (delta_lon / 2))\<^sup>2)"

definition calculate_distance_km :: distance_routine where
  "calculate_distance_km lat1 lon1 lat2 lon2 =
     (let R = 6371;
          a = haversine_a lat1 lon1 lat2 lon2
      in case math_sqrt a of
           Inl e \<Rightarrow> Inl e
         | Inr sa \<Rightarrow>
             (case math_sqrt (1 - a) of
                Inl e \<Rightarrow> Inl e
              | Inr sb \<Rightarrow> Inr (R * (2 * atan2 sa sb))))"

text \<open>
  The value \<^verbatim>\<open>calculate_distance_km\<close> returns when both square roots are defined.
  In exact arithmetic they always are, as \<open>haversine_a_range\<close> below shows; on doubles
  they are not.
\<close>

definition haversine_km :: "real \<Rightarrow> real \<Rightarrow> real \<Rightarrow> real \<Rightarrow> real" where
  "haversine_km lat1 lon1 lat2 lon2 =
     6371 * (2 * atan2 (sqrt (haversine_a lat1 lon1 lat2 lon2))
                       (sqrt (1 - haversine_a lat1 lon1 lat2 lon2)))"

section \<open>NearestWaypoint\<close>

text \<open>
  The \<^verbatim>\<open>for\<close> loop of \<^verbatim>\<open>find_nearest_planned_location\<close>, with its two
  loop variables as arguments; \<open>routine\<close> is the distance routine it calls. An error raised
  by the routine leaves the loop and the function.
\<close>

fun nearest_loop ::
  "distance_routine \<Rightarrow> real \<Rightarrow> real \<Rightarrow> planned_location list \<Rightarrow>
   planned_location option \<Rightarrow> pyfloat \<Rightarrow> error + (planned_location option \<times> pyfloat)" where
  "nearest_loop routine current_lat current_lon [] nearest_location min_distance =
     Inr (nearest_location, min_distance)"
| "nearest_loop routine current_lat current_lon (location # rest) nearest_location min_distance =
     (case routine current_lat current_lon (pl_latitude location) (pl_longitude location) of
        Inl e \<Rightarrow> Inl e
      | Inr distance \<Rightarrow>
          if fl_less (Fin distance) min_distance
          then nearest_loop routine current_lat current_lon rest (Some location) (Fin distance)
          else nearest_loop routine current_lat current_lon rest nearest_location min_distance)"

definition find_nearest_planned_location ::
  "distance_routine \<Rightarrow> real \<Rightarrow> real \<Rightarrow> planned_location list \<Rightarrow>
   error + (planned_location option \<times> pyfloat)" where
  "find_nearest_planned_location routine current_lat current_lon locations =
     (if locations = [] then Inr (None, PInf)
      else nearest_loop routine current_lat current_lon locations None PInf)"

section \<open>DeviationDetector\<close>

text \<open>
  \<^verbatim>\<open>db.query(PlannedLocation).filter(PlannedLocation.trip_id == trip.id).all()\<close>
\<close>

definition query_planned_locations :: "world \<Rightarrow> trip \<Rightarrow> planned_location list" where
  "query_planned_locations w trip =
     filter (\<lambda>p. pl_trip_id p = trip_id trip) (planned_locations w)"

text \<open>
  \<^verbatim>\<open>check_deviation_alert(db, location_update, trip)\<close>. The clock is read twice
  while the alert is built, once for \<^verbatim>\<open>triggered_at\<close> and once for
  \<^verbatim>\<open>response_deadline\<close>. The formatted \<^verbatim>\<open>message\<close> column is left
  out of the record: it is text rendered from \<^verbatim>\<open>distance_km\<close> and nothing reads
  it back.
\<close>

definition check_deviation_alert ::
  "distance_routine \<Rightarrow> world \<Rightarrow> location_update \<Rightarrow> trip \<Rightarrow>
   error + (safety_alert option \<times> world)" where
  "check_deviation_alert routine w location_update trip =
     (let locations = query_planned_locations w trip
      in if locations = [] then Inr (None, w)
         else
           (case find_nearest_planned_location routine
                   (lu_latitude location_update) (lu_longitude location_update) locations of
              Inl e \<Rightarrow> Inl e
            | Inr (nearest_location, distance_km) \<Rightarrow>
                if fl_greater distance_km (Fin (deviation_threshold_km trip))
                then
                  (let (t1, w1) = utcnow w;
                       (t2, w2) = utcnow w1;
                       alert = \<lparr>alert_id = 0,
                                alert_type = ''deviation'',
                                status = ''active'',
                                title = ''Location Deviation Detected'',
                                latitude = lu_latitude location_update,
                                longitude = lu_longitude location_update,
                                distance_from_planned_km = Some distance_km,
                                triggered_at = t1,
                                response_deadline = t2 + minutes 15,
                                responded_at = None,
                                response_message = None,
                                user_id = lu_user_id location_update,
                                alert_trip_id = trip_id trip\<rparr>;
                       (alert', w3) = add_alert alert w2
                   in Inr (Some alert', w3))
                else Inr (None, w)))"

section \<open>StationarityDetector\<close>

text \<open>
  The query for the last four hours of a user's updates on a trip, newest first. Rows
  with equal timestamps come in the order the database chooses; here, table order.
\<close>

definition query_recent_locations ::
  "world \<Rightarrow> nat \<Rightarrow> trip \<Rightarrow> datetime \<Rightarrow> location_update list" where
  "query_recent_locations w uid trip four_hours_ago =
     sort_key (\<lambda>l. - lu_timestamp l)
       (filter (\<lambda>l. lu_user_id l = uid \<and> lu_trip_id l = trip_id trip \<and>
                     four_hours_ago \<le> lu_timestamp l)
          (location_updates w))"

text \<open>
  The movement loop: \<^verbatim>\<open>stationary\<close> starts as true and the loop breaks at the
  first update more than 0.5 km from the latest one.
\<close>

fun stationary_loop ::
  "distance_routine \<Rightarrow> location_update \<Rightarrow> location_update list \<Rightarrow> error + bool" where
  "stationary_loop routine latest_location [] = Inr True"
| "stationary_loop routine latest_location (location # rest) =
     (case routine (lu_latitude latest_location) (lu_longitude latest_location)
             (lu_latitude location) (lu_longitude location) of
        Inl e \<Rightarrow> Inl e
      | Inr distance \<Rightarrow>
          if distance > 0.5 then Inr False
          else stationary_loop routine latest_location rest)"

definition check_stationary_alert ::
  "distance_routine \<Rightarrow> world \<Rightarrow> nat \<Rightarrow> trip \<Rightarrow>
   error + (safety_alert option \<times> world)" where
  "check_stationary_alert routine w uid trip =
     (let (now0, w0) = utcnow w;
          four_hours_ago = now0 - hours 4;
          recent_locations = query_recent_locations w0 uid trip four_hours_ago
      in if length recent_locations < 2 then Inr (None, w0)
         else
           (let latest_location = hd recent_locations
            in case stationary_loop routine latest_location (tl recent_locations) of
                 Inl e \<Rightarrow> Inl e
               | Inr stationary \<Rightarrow>
                   if stationary
                   then
                     (case find_nearest_planned_location routine
                             (lu_latitude latest_location) (lu_longitude latest_location)
                             (query_planned_locations w0 trip) of
                        Inl e \<Rightarrow> Inl e
                      | Inr (nearest_location, distance_km) \<Rightarrow>
                          if fl_greater distance_km (Fin 1)
                          then
                            (let (t1, w1) = utcnow w0;
                                 (t2, w2) = utcnow w1;
                                 alert = \<lparr>alert_id = 0,
                                          alert_type = ''stationary'',
                                          status = ''active'',
                                          title = ''Stationary Alert'',
                                          latitude = lu_latitude latest_location,
                                          longitude = lu_longitude latest_location,
                                          distance_from_planned_km = Some distance_km,
                                          triggered_at = t1,
                                          response_deadline = t2 + minutes 15,
                                          responded_at = None,
                                          response_message = None,
                                          user_id = uid,
                                          alert_trip_id = trip_id trip\<rparr>;
                                 (alert', w3) = add_alert alert w2
                             in Inr (Some alert', w3))
                          else Inr (None, w0))
                   else Inr (None, w0)))"

section \<open>Responding to an alert\<close>

record alert_response =
  response :: string
  message :: "string option"

text \<open>\<^verbatim>\<open>response.message or "..."\<close>: \<^verbatim>\<open>None\<close> and the empty string are falsy.\<close>

definition message_or :: "string option \<Rightarrow> string \<Rightarrow> string" where
  "message_or m canned =
     (case m of None \<Rightarrow> canned | Some s \<Rightarrow> if s = [] then canned else s)"

text \<open>The commit writes the changed object back to its row.\<close>

fun update_first :: "('a \<Rightarrow> bool) \<Rightarrow> 'a \<Rightarrow> 'a list \<Rightarrow> 'a list" where
  "update_first P y [] = []"
| "update_first P y (x # xs) = (if P x then y # xs else x # update_first P y xs)"

text \<open>
  \<^verbatim>\<open>respond_to_alert(alert_id, response, current_user, db)\<close> of
  \<^verbatim>\<open>routes.py\<close>; \<open>uid\<close> is \<^verbatim>\<open>current_user.id\<close>. The result is the
  returned dictionary, as the pair of its \<^verbatim>\<open>message\<close> and \<^verbatim>\<open>alert_id\<close>.
\<close>

definition respond_to_alert ::
  "world \<Rightarrow> nat \<Rightarrow> alert_response \<Rightarrow> nat \<Rightarrow> error + ((string \<times> nat) \<times> world)" where
  "respond_to_alert w aid r uid =
     (let mine = (\<lambda>a. alert_id a = aid \<and> user_id a = uid)
      in case find mine (safety_alerts w) of
           None \<Rightarrow> Inl (HTTPException 404 ''Alert not found'')
         | Some alert \<Rightarrow>
             (let alert1 =
                    (if response r = ''safe''
                     then alert\<lparr>status := ''responded_safe'',
                                response_message :=
                                  Some (message_or (message r) ''User confirmed they are safe'')\<rparr>
                     else if response r = ''help''
                     then alert\<lparr>status := ''responded_help'',
                                response_message :=
                                  Some (message_or (message r) ''User requested help'')\<rparr>
                     else alert);
                  (now, w1) = utcnow w;
                  alert2 = alert1\<lparr>responded_at := Some now\<rparr>;
                  w2 = w1\<lparr>safety_alerts := update_first mine alert2 (safety_alerts w1)\<rparr>
              in Inr ((''Alert response recorded: '' @ response r, aid), w2)))"

section \<open>Deadline check\<close>

datatype lifecycle_error = InvalidStateError

text \<open>
  Modelled from the spec: \<^verbatim>\<open>checkDeadline(alert, now)\<close>, which no source file
  implements (nothing in the repository writes the status \<^verbatim>\<open>escalated\<close>). The
  specification's words: if the status is active and \<open>now\<close> is greater than the response
  deadline, the alert becomes escalated; on an alert that is not active the operation fails
  with the invalid-state error and the alert stays as it is.
\<close>

definition checkDeadline :: "safety_alert \<Rightarrow> datetime \<Rightarrow> lifecycle_error + safety_alert" where
  "checkDeadline alert now =
     (if status alert \<noteq> ''active'' then Inl InvalidStateError
      else if now > response_deadline alert then Inr (alert\<lparr>status := ''escalated''\<rparr>)
      else Inr alert)"

section \<open>Auxiliary notions and example data\<close>

text \<open>The distance from a point to a planned location in exact arithmetic.\<close>

definition distance_to :: "real \<Rightarrow> real \<Rightarrow> planned_location \<Rightarrow> real" where
  "distance_to lat lon l = haversine_km lat lon (pl_latitude l) (pl_longitude l)"

definition waypoint :: "nat \<Rightarrow> real \<Rightarrow> real \<Rightarrow> nat \<Rightarrow> planned_location" where
  "waypoint i lat lon t =
     \<lparr>pl_id = i, pl_latitude = lat, pl_longitude = lon, pl_radius_meters = 500,
      pl_is_accommodation = False, pl_trip_id = t\<rparr>"

text \<open>
  The distance to the nearest of a non-empty list of planned locations, where \<open>ds\<close> gives
  the distance that the routine returned for each of them.
\<close>

definition nearest_distance :: "(planned_location \<Rightarrow> real) \<Rightarrow> planned_location list \<Rightarrow> real" where
  "nearest_distance ds locations = Min (set (map ds locations))"

text \<open>
  A distance routine that raises at one pair of points and agrees with the exact reading
  everywhere else: a stand-in for what rounding does to the routine at such a pair.
\<close>

definition failing_at :: "real \<Rightarrow> real \<Rightarrow> real \<Rightarrow> real \<Rightarrow> distance_routine" where
  "failing_at a1 b1 a2 b2 lat1 lon1 lat2 lon2 =
     (if lat1 = a1 \<and> lon1 = b1 \<and> lat2 = a2 \<and> lon2 = b2 then Inl ValueError
      else calculate_distance_km lat1 lon1 lat2 lon2)"

definition sample ::
  "nat \<Rightarrow> real \<Rightarrow> real \<Rightarrow> datetime \<Rightarrow> nat \<Rightarrow> nat \<Rightarrow> location_update" where
  "sample i lat lon ts u t =
     \<lparr>lu_id = i, lu_latitude = lat, lu_longitude = lon, lu_timestamp = ts,
      lu_user_id = u, lu_trip_id = t\<rparr>"

definition trip_with :: "nat \<Rightarrow> real \<Rightarrow> trip" where
  "trip_with t km = \<lparr>trip_id = t, monitoring_enabled = True, deviation_threshold_km = km\<rparr>"

definition world_with ::
  "planned_location list \<Rightarrow> location_update list \<Rightarrow> safety_alert list \<Rightarrow> (nat \<Rightarrow> datetime) \<Rightarrow> world" where
  "world_with pls lus als clk =
     \<lparr>planned_locations = pls, location_updates = lus, safety_alerts = als,
      clock = clk, ticks = 0\<rparr>"

text \<open>The alert the deviation check builds and stores when it fires.\<close>

definition deviation_alert_of :: "world \<Rightarrow> location_update \<Rightarrow> trip \<Rightarrow> pyfloat \<Rightarrow> safety_alert" where
  "deviation_alert_of w location_update trip d =
     \<lparr>alert_id = fresh_alert_id w,
      alert_type = ''deviation'',
      status = ''active'',
      title = ''Location Deviation Detected'',
      latitude = lu_latitude location_update,
      longitude = lu_longitude location_update,
      distance_from_planned_km = Some d,
      triggered_at = clock w (ticks w),
      response_deadline = clock w (Suc (ticks w)) + minutes 15,
      responded_at = None,
      response_message = None,
      user_id = lu_user_id location_update,
      alert_trip_id = trip_id trip\<rparr>"

text \<open>The movement test of the stationarity loop, on the exact distance.\<close>

definition moved_from :: "location_update \<Rightarrow> location_update \<Rightarrow> bool" where
  "moved_from latest_location location =
     (0.5 < haversine_km (lu_latitude latest_location) (lu_longitude latest_location)
              (lu_latitude location) (lu_longitude location))"

text \<open>The window of updates that \<^verbatim>\<open>check_stationary_alert\<close> looks at in world \<open>w\<close>.\<close>

definition recent_window :: "world \<Rightarrow> nat \<Rightarrow> trip \<Rightarrow> location_update list" where
  "recent_window w uid trip =
     query_recent_locations w uid trip (clock w (ticks w) - hours 4)"

text \<open>The alert the stationarity check builds and stores when it fires.\<close>

definition stationary_alert_of ::
  "world \<Rightarrow> nat \<Rightarrow> trip \<Rightarrow> location_update \<Rightarrow> pyfloat \<Rightarrow> safety_alert" where
  "stationary_alert_of w uid trip latest_location d =
     \<lparr>alert_id = fresh_alert_id w,
      alert_type = ''stationary'',
      status = ''active'',
      title = ''Stationary Alert'',
      latitude = lu_latitude latest_location,
      longitude = lu_longitude latest_location,
      distance_from_planned_km = Some d,
      triggered_at = clock w (Suc (ticks w)),
      response_deadline = clock w (Suc (Suc (ticks w))) + minutes 15,
      responded_at = None,
      response_message = None,
      user_id = uid,
      alert_trip_id = trip_id trip\<rparr>"

text \<open>A clock that advances by one microsecond at every reading.\<close>

definition ticking_clock :: "nat \<Rightarrow> datetime" where
  "ticking_clock n = 20000000000 + int n"

text \<open>The row that \<^verbatim>\<open>respond_to_alert\<close> writes back for a found alert.\<close>

definition responded_alert :: "safety_alert \<Rightarrow> alert_response \<Rightarrow> datetime \<Rightarrow> safety_alert" where
  "responded_alert alert r now =
     (if response r = ''safe''
      then alert\<lparr>status := ''responded_safe'',
                 response_message :=
                   Some (message_or (message r) ''User confirmed they are safe'')\<rparr>
      else if response r = ''help''
      then alert\<lparr>status := ''responded_help'',
                 response_message := Some (message_or (message r) ''User requested help'')\<rparr>
      else alert)\<lparr>responded_at := Some now\<rparr>"

text \<open>An alert that its user has already answered as safe.\<close>

definition answered_alert :: safety_alert where
  "answered_alert =
     \<lparr>alert_id = 3, alert_type = ''deviation'', status = ''responded_safe'',
      title = ''Location Deviation Detected'', latitude = 0, longitude = 0,
      distance_from_planned_km = Some (Fin 3),
      triggered_at = 19000000000, response_deadline = 19900000000,
      responded_at = Some 19000000500,
      response_message = Some ''User confirmed they are safe'',
      user_id = 7, alert_trip_id = 5\<rparr>"

definition reply :: "string \<Rightarrow> string option \<Rightarrow> alert_response" where
  "reply k m = \<lparr>response = k, message = m\<rparr>"

text \<open>An alert that is still waiting for its user's answer.\<close>

definition pending_alert :: safety_alert where
  "pending_alert =
     \<lparr>alert_id = 4, alert_type = ''deviation'', status = ''active'',
      title = ''Location Deviation Detected'', latitude = 0, longitude = 0,
      distance_from_planned_km = Some (Fin 3),
      triggered_at = 19000000000, response_deadline = 19900000000,
      responded_at = None, response_message = None,
      user_id = 7, alert_trip_id = 5\<rparr>"

section \<open>Properties of GeoMath\<close>

lemma radians_diff: "radians (x - y) = radians x - radians y"
  by (simp add: radians_def diff_divide_distrib left_diff_distrib)

lemma sin_sq_le_1: "(sin (x::real))\<^sup>2 \<le> 1"
  using sin_cos_squared_add [of x] zero_le_power2 [of "cos x"] by linarith

lemma sin_half_sq: "(sin (x / 2))\<^sup>2 = (1 - cos x) / 2" for x :: real
  using cos_double_sin [of "x / 2"] by simp

lemma convex_unit:
  fixes s u v :: real
  assumes "0 \<le> s" "s \<le> 1" "0 \<le> u" "u \<le> 1" "0 \<le> v" "v \<le> 1"
  shows "0 \<le> (1 - s) * u + s * v" and "(1 - s) * u + s * v \<le> 1"
proof -
  show "0 \<le> (1 - s) * u + s * v"
    using assms by (simp add: add_nonneg_nonneg)
  have "(1 - s) * u \<le> (1 - s) * 1"
    using assms by (intro mult_left_mono) auto
  moreover have "s * v \<le> s * 1"
    using assms by (intro mult_left_mono) auto
  ultimately show "(1 - s) * u + s * v \<le> 1" by simp
qed

text \<open>
  The haversine term lies between 0 and 1: it is a mixture, with weight
  \<open>sin\<^sup>2 (\<Delta>lon / 2)\<close>, of \<open>sin\<^sup>2 ((lat2 - lat1) / 2)\<close> and \<open>cos\<^sup>2 ((lat1 + lat2) / 2)\<close>.
  So neither square root of \<^verbatim>\<open>calculate_distance_km\<close> is taken of a negative number.
\<close>

lemma haversine_a_range:
  "0 \<le> haversine_a lat1 lon1 lat2 lon2 \<and> haversine_a lat1 lon1 lat2 lon2 \<le> 1"
proof -
  define p1 where "p1 = radians lat1"
  define p2 where "p2 = radians lat2"
  define s where "s = (sin (radians (lon2 - lon1) / 2))\<^sup>2"
  define u where "u = (sin ((p2 - p1) / 2))\<^sup>2"
  define v where "v = u + cos p1 * cos p2"
  have a: "haversine_a lat1 lon1 lat2 lon2 = (1 - s) * u + s * v"
    by (simp add: haversine_a_def Let_def radians_diff p1_def p2_def s_def u_def v_def algebra_simps)
  have s0: "0 \<le> s" by (simp add: s_def)
  have s1: "s \<le> 1" unfolding s_def by (rule sin_sq_le_1)
  have u0: "0 \<le> u" by (simp add: u_def)
  have u1: "u \<le> 1" unfolding u_def by (rule sin_sq_le_1)
  have v: "v = (1 + cos (p1 + p2)) / 2"
    by (simp add: v_def u_def sin_half_sq cos_diff cos_add field_simps)
  have "0 \<le> 1 + cos (p1 + p2)"
    using cos_ge_minus_one [of "p1 + p2"] by linarith
  then have v0: "0 \<le> v" by (simp add: v)
  have v1: "v \<le> 1" by (simp add: v)
  show ?thesis
    using convex_unit [OF s0 s1 u0 u1 v0 v1] by (simp add: a)
qed

text \<open>The distance is always returned, as the value \<open>haversine_km\<close>.\<close>

lemma calculate_distance_km_eq:
  "calculate_distance_km lat1 lon1 lat2 lon2 = Inr (haversine_km lat1 lon1 lat2 lon2)"
  using haversine_a_range [of lat1 lon1 lat2 lon2]
  by (simp add: calculate_distance_km_def haversine_km_def math_sqrt_def Let_def)


lemma haversine_a_same: "haversine_a lat lon lat lon = 0"
  by (simp add: haversine_a_def Let_def radians_def)


lemma haversine_km_same: "haversine_km lat lon lat lon = 0"
  by (simp add: haversine_km_def haversine_a_same atan2_def)


section \<open>Properties of NearestWaypoint\<close>

text \<open>
  In what follows \<open>routine\<close> is any distance routine, and \<open>ds\<close> names the distances it
  returns for the planned locations of a scan.
\<close>

lemma nearest_loop_running:
  assumes "\<forall>l \<in> set ls. routine lat lon (pl_latitude l) (pl_longitude l) = Inr (ds l)"
  shows "\<exists>r. nearest_loop routine lat lon ls (Some n) (Fin (ds n)) = Inr (Some r, Fin (ds r)) \<and>
        ((r = n \<and> (\<forall>l \<in> set ls. ds n \<le> ds l)) \<or>
         (\<exists>i < length ls. r = ls ! i \<and> ds r < ds n \<and>
            (\<forall>j < length ls. ds r \<le> ds (ls ! j)) \<and>
            (\<forall>j < i. ds r < ds (ls ! j))))"
  using assms
proof (induction ls arbitrary: n)
  case Nil
  show ?case by simp
next
  case (Cons x xs)
  have dx: "routine lat lon (pl_latitude x) (pl_longitude x) = Inr (ds x)"
    using Cons.prems by simp
  have rest: "\<forall>l \<in> set xs. routine lat lon (pl_latitude l) (pl_longitude l) = Inr (ds l)"
    using Cons.prems by simp
  show ?case
  proof (cases "ds x < ds n")
    case True
    from Cons.IH [OF rest, of x] obtain r where
      run: "nearest_loop routine lat lon xs (Some x) (Fin (ds x)) = Inr (Some r, Fin (ds r))"
      and alt: "(r = x \<and> (\<forall>l \<in> set xs. ds x \<le> ds l)) \<or>
         (\<exists>i < length xs. r = xs ! i \<and> ds r < ds x \<and>
            (\<forall>j < length xs. ds r \<le> ds (xs ! j)) \<and>
            (\<forall>j < i. ds r < ds (xs ! j)))"
      by blast
    have res: "nearest_loop routine lat lon (x # xs) (Some n) (Fin (ds n)) =
                 Inr (Some r, Fin (ds r))"
      using True run dx by simp
    from alt show ?thesis
    proof
      assume a: "r = x \<and> (\<forall>l \<in> set xs. ds x \<le> ds l)"
      have "\<forall>j < length (x # xs). ds r \<le> ds ((x # xs) ! j)"
        using a by (auto simp: nth_Cons split: nat.splits)
      then have "\<exists>i < length (x # xs). r = (x # xs) ! i \<and> ds r < ds n \<and>
            (\<forall>j < length (x # xs). ds r \<le> ds ((x # xs) ! j)) \<and>
            (\<forall>j < i. ds r < ds ((x # xs) ! j))"
        using a True by (intro exI [of _ 0]) simp
      with res show ?thesis by blast
    next
      assume "\<exists>i < length xs. r = xs ! i \<and> ds r < ds x \<and>
            (\<forall>j < length xs. ds r \<le> ds (xs ! j)) \<and>
            (\<forall>j < i. ds r < ds (xs ! j))"
      then obtain i where i: "i < length xs" "r = xs ! i" "ds r < ds x"
        "\<forall>j < length xs. ds r \<le> ds (xs ! j)"
        "\<forall>j < i. ds r < ds (xs ! j)"
        by blast
      have 1: "\<forall>j < length (x # xs). ds r \<le> ds ((x # xs) ! j)"
        using i by (auto simp: nth_Cons split: nat.splits)
      have 2: "\<forall>j < Suc i. ds r < ds ((x # xs) ! j)"
        using i by (auto simp: nth_Cons split: nat.splits)
      have "\<exists>k < length (x # xs). r = (x # xs) ! k \<and> ds r < ds n \<and>
            (\<forall>j < length (x # xs). ds r \<le> ds ((x # xs) ! j)) \<and>
            (\<forall>j < k. ds r < ds ((x # xs) ! j))"
        using i True 1 2 by (intro exI [of _ "Suc i"]) auto
      with res show ?thesis by blast
    qed
  next
    case False
    from Cons.IH [OF rest, of n] obtain r where
      run: "nearest_loop routine lat lon xs (Some n) (Fin (ds n)) = Inr (Some r, Fin (ds r))"
      and alt: "(r = n \<and> (\<forall>l \<in> set xs. ds n \<le> ds l)) \<or>
         (\<exists>i < length xs. r = xs ! i \<and> ds r < ds n \<and>
            (\<forall>j < length xs. ds r \<le> ds (xs ! j)) \<and>
            (\<forall>j < i. ds r < ds (xs ! j)))"
      by blast
    have res: "nearest_loop routine lat lon (x # xs) (Some n) (Fin (ds n)) =
                 Inr (Some r, Fin (ds r))"
      using False run dx by simp
    from alt show ?thesis
    proof
      assume a: "r = n \<and> (\<forall>l \<in> set xs. ds n \<le> ds l)"
      then have "r = n \<and> (\<forall>l \<in> set (x # xs). ds n \<le> ds l)"
        using False by auto
      with res show ?thesis by blast
    next
      assume "\<exists>i < length xs. r = xs ! i \<and> ds r < ds n \<and>
            (\<forall>j < length xs. ds r \<le> ds (xs ! j)) \<and>
            (\<forall>j < i. ds r < ds (xs ! j))"
      then obtain i where i: "i < length xs" "r = xs ! i" "ds r < ds n"
        "\<forall>j < length xs. ds r \<le> ds (xs ! j)"
        "\<forall>j < i. ds r < ds (xs ! j)"
        by blast
      have rx: "ds r < ds x"
        using i(3) False by linarith
      have 1: "\<forall>j < length (x # xs). ds r \<le> ds ((x # xs) ! j)"
        using i rx by (auto simp: nth_Cons split: nat.splits)
      have 2: "\<forall>j < Suc i. ds r < ds ((x # xs) ! j)"
        using i rx by (auto simp: nth_Cons split: nat.splits)
      have "\<exists>k < length (x # xs). r = (x # xs) ! k \<and> ds r < ds n \<and>
            (\<forall>j < length (x # xs). ds r \<le> ds ((x # xs) ! j)) \<and>
            (\<forall>j < k. ds r < ds ((x # xs) ! j))"
        using i 1 2 by (intro exI [of _ "Suc i"]) auto
      with res show ?thesis by blast
    qed
  qed
qed

lemma find_nearest_nonempty:
  assumes "locations \<noteq> []"
    and "\<forall>l \<in> set locations. routine lat lon (pl_latitude l) (pl_longitude l) = Inr (ds l)"
  shows "\<exists>i < length locations.
           find_nearest_planned_location routine lat lon locations =
             Inr (Some (locations ! i), Fin (ds (locations ! i))) \<and>
           (\<forall>j < length locations. ds (locations ! i) \<le> ds (locations ! j)) \<and>
           (\<forall>j < i. ds (locations ! i) < ds (locations ! j))"
proof -
  from assms(1) obtain x xs where ls: "locations = x # xs" by (cases locations) auto
  have dx: "routine lat lon (pl_latitude x) (pl_longitude x) = Inr (ds x)"
    using assms(2) by (simp add: ls)
  have rest: "\<forall>l \<in> set xs. routine lat lon (pl_latitude l) (pl_longitude l) = Inr (ds l)"
    using assms(2) by (simp add: ls)
  have start: "find_nearest_planned_location routine lat lon locations =
                 nearest_loop routine lat lon xs (Some x) (Fin (ds x))"
    by (simp add: find_nearest_planned_location_def ls dx)
  from nearest_loop_running
         [where routine = routine and lat = lat and lon = lon and ds = ds and ls = xs and n = x,
          OF rest]
  obtain r where
    run: "nearest_loop routine lat lon xs (Some x) (Fin (ds x)) = Inr (Some r, Fin (ds r))"
    and alt: "(r = x \<and> (\<forall>l \<in> set xs. ds x \<le> ds l)) \<or>
         (\<exists>i < length xs. r = xs ! i \<and> ds r < ds x \<and>
            (\<forall>j < length xs. ds r \<le> ds (xs ! j)) \<and>
            (\<forall>j < i. ds r < ds (xs ! j)))"
    by blast
  from alt show ?thesis
  proof
    assume a: "r = x \<and> (\<forall>l \<in> set xs. ds x \<le> ds l)"
    have "\<forall>j < length (x # xs). ds x \<le> ds ((x # xs) ! j)"
      using a by (auto simp: nth_Cons split: nat.splits)
    then show ?thesis
      using a start run unfolding ls by (intro exI [of _ 0]) simp
  next
    assume "\<exists>i < length xs. r = xs ! i \<and> ds r < ds x \<and>
            (\<forall>j < length xs. ds r \<le> ds (xs ! j)) \<and>
            (\<forall>j < i. ds r < ds (xs ! j))"
    then obtain i where i: "i < length xs" "r = xs ! i" "ds r < ds x"
        "\<forall>j < length xs. ds r \<le> ds (xs ! j)"
        "\<forall>j < i. ds r < ds (xs ! j)"
      by blast
    have 1: "\<forall>j < length (x # xs). ds r \<le> ds ((x # xs) ! j)"
      using i by (auto simp: nth_Cons split: nat.splits)
    have 2: "\<forall>j < Suc i. ds r < ds ((x # xs) ! j)"
      using i by (auto simp: nth_Cons split: nat.splits)
    show ?thesis
      using i(1,2) 1 2 start run unfolding ls by (intro exI [of _ "Suc i"]) simp
  qed
qed

text \<open>
  An error of the routine ends the scan: if it raises at some planned location and has
  returned at every one before, the scan raises the same error, whatever it had found.
\<close>

lemma nearest_loop_raises:
  assumes "k < length ls"
    and "routine lat lon (pl_latitude (ls ! k)) (pl_longitude (ls ! k)) = Inl e"
    and "\<forall>j < k. \<exists>d. routine lat lon (pl_latitude (ls ! j)) (pl_longitude (ls ! j)) = Inr d"
  shows "nearest_loop routine lat lon ls nl md = Inl e"
  using assms
proof (induction ls arbitrary: k nl md)
  case Nil
  then show ?case by simp
next
  case (Cons x xs)
  show ?case
  proof (cases k)
    case 0
    with Cons.prems(2) show ?thesis by simp
  next
    case (Suc k')
    from Cons.prems(3) [rule_format, of 0] Suc
    obtain d where d: "routine lat lon (pl_latitude x) (pl_longitude x) = Inr d"
      by auto
    have k': "k' < length xs"
      using Cons.prems(1) Suc by simp
    have e: "routine lat lon (pl_latitude (xs ! k')) (pl_longitude (xs ! k')) = Inl e"
      using Cons.prems(2) Suc by simp
    have r: "\<forall>j < k'. \<exists>d. routine lat lon (pl_latitude (xs ! j)) (pl_longitude (xs ! j)) = Inr d"
    proof (intro allI impI)
      fix j assume "j < k'"
      then have "Suc j < k" using Suc by simp
      from Cons.prems(3) [rule_format, OF this]
      show "\<exists>d. routine lat lon (pl_latitude (xs ! j)) (pl_longitude (xs ! j)) = Inr d"
        by simp
    qed
    have "nearest_loop routine lat lon xs nl' md' = Inl e" for nl' md'
      by (rule Cons.IH [OF k' e r])
    then show ?thesis using d by simp
  qed
qed

lemma find_nearest_raises:
  assumes "k < length locations"
    and "routine lat lon (pl_latitude (locations ! k)) (pl_longitude (locations ! k)) = Inl e"
    and "\<forall>j < k. \<exists>d. routine lat lon (pl_latitude (locations ! j))
                       (pl_longitude (locations ! j)) = Inr d"
  shows "find_nearest_planned_location routine lat lon locations = Inl e"
proof -
  have "locations \<noteq> []" using assms(1) by auto
  then show ?thesis
    using nearest_loop_raises
            [where routine = routine and lat = lat and lon = lon and ls = locations and k = k
               and e = e and nl = None and md = PInf, OF assms]
    by (simp add: find_nearest_planned_location_def)
qed

lemma atan2_zero_right: "0 < y \<Longrightarrow> atan2 y 0 = pi / 2"
  by (simp add: atan2_def)

lemma haversine_km_half_turn: "haversine_km 0 0 0 180 = 6371 * pi"
proof -
  have "haversine_a 0 0 0 180 = 1"
    by (simp add: haversine_a_def Let_def radians_def)
  then show ?thesis
    by (simp add: haversine_km_def atan2_zero_right)
qed

lemma exact_distance_to:
  "calculate_distance_km lat lon (pl_latitude l) (pl_longitude l) = Inr (distance_to lat lon l)"
  by (simp add: calculate_distance_km_eq distance_to_def)

lemma distance_to_examples:
  "distance_to 0 0 (waypoint i 0 180 t) = 6371 * pi"
  "distance_to 0 0 (waypoint i 0 0 t) = 0"
  by (simp_all add: distance_to_def waypoint_def haversine_km_half_turn haversine_km_same)

lemma waypoint_sel [simp]:
  "pl_latitude (waypoint i lat lon t) = lat"
  "pl_longitude (waypoint i lat lon t) = lon"
  "pl_trip_id (waypoint i lat lon t) = t"
  by (simp_all add: waypoint_def)

lemma failing_at_there [simp]: "failing_at a1 b1 a2 b2 a1 b1 a2 b2 = Inl ValueError"
  by (simp add: failing_at_def)

lemma failing_at_elsewhere:
  "a2 \<noteq> lat2 \<Longrightarrow> failing_at a1 b1 a2 b2 lat1 lon1 lat2 lon2 =
     Inr (haversine_km lat1 lon1 lat2 lon2)"
  by (simp add: failing_at_def calculate_distance_km_eq)

text \<open>
  C8. For any distance routine: on an empty sequence the scan returns no location and
  infinity. On a non-empty one, when the routine returns a distance for every location, the
  scan returns a location of the sequence together with its distance, no location of the
  sequence is nearer, and every location before it in the sequence is strictly farther, so
  under ties the first one wins. When the routine raises at a location, having returned at
  those before it, the scan returns nothing and raises that error.
\<close>

theorem find_nearest_planned_location_spec:
  "find_nearest_planned_location routine lat lon [] = Inr (None, PInf) \<and>
   (locations \<noteq> [] \<and>
    (\<forall>l \<in> set locations. routine lat lon (pl_latitude l) (pl_longitude l) = Inr (ds l)) \<longrightarrow>
      (\<exists>i < length locations.
         find_nearest_planned_location routine lat lon locations =
           Inr (Some (locations ! i), Fin (ds (locations ! i))) \<and>
         (\<forall>j < length locations. ds (locations ! i) \<le> ds (locations ! j)) \<and>
         (\<forall>j < i. ds (locations ! i) < ds (locations ! j)))) \<and>
   (k < length locations \<and>
    routine lat lon (pl_latitude (locations ! k)) (pl_longitude (locations ! k)) = Inl e \<and>
    (\<forall>j < k. \<exists>d. routine lat lon (pl_latitude (locations ! j))
                     (pl_longitude (locations ! j)) = Inr d) \<longrightarrow>
      find_nearest_planned_location routine lat lon locations = Inl e)"
proof (intro conjI impI)
  show "find_nearest_planned_location routine lat lon [] = Inr (None, PInf)"
    by (simp add: find_nearest_planned_location_def)
next
  assume "locations \<noteq> [] \<and>
    (\<forall>l \<in> set locations. routine lat lon (pl_latitude l) (pl_longitude l) = Inr (ds l))"
  then show "\<exists>i < length locations.
         find_nearest_planned_location routine lat lon locations =
           Inr (Some (locations ! i), Fin (ds (locations ! i))) \<and>
         (\<forall>j < length locations. ds (locations ! i) \<le> ds (locations ! j)) \<and>
         (\<forall>j < i. ds (locations ! i) < ds (locations ! j))"
    using find_nearest_nonempty
            [where locations = locations and routine = routine and lat = lat and lon = lon
               and ds = ds]
    by blast
next
  assume "k < length locations \<and>
    routine lat lon (pl_latitude (locations ! k)) (pl_longitude (locations ! k)) = Inl e \<and>
    (\<forall>j < k. \<exists>d. routine lat lon (pl_latitude (locations ! j))
                     (pl_longitude (locations ! j)) = Inr d)"
  then show "find_nearest_planned_location routine lat lon locations = Inl e"
    using find_nearest_raises
            [where k = k and locations = locations and routine = routine and lat = lat
               and lon = lon and e = e]
    by blast
qed

theorem find_nearest_planned_location_spec_witness:
  "[waypoint 11 0 180 5, waypoint 12 0 0 5, waypoint 13 0 0 5] \<noteq> [] \<and>
   calculate_distance_km 0 0 0 180 = Inr (6371 * pi) \<and>
   calculate_distance_km 0 0 0 0 = Inr 0 \<and>
   find_nearest_planned_location calculate_distance_km 0 0
       [waypoint 11 0 180 5, waypoint 12 0 0 5, waypoint 13 0 0 5] =
     Inr (Some (waypoint 12 0 0 5), Fin 0) \<and>
   failing_at 8 (- 1) (- 8) 179 8 (- 1) 0 0 = Inr (haversine_km 8 (- 1) 0 0) \<and>
   failing_at 8 (- 1) (- 8) 179 8 (- 1) (- 8) 179 = Inl ValueError \<and>
   find_nearest_planned_location (failing_at 8 (- 1) (- 8) 179) 8 (- 1)
       [waypoint 11 0 0 5, waypoint 12 (- 8) 179 5] = Inl ValueError"
proof -
  let ?ls = "[waypoint 11 0 180 5, waypoint 12 0 0 5, waypoint 13 0 0 5]"
  let ?D = "distance_to 0 0"
  have ne: "?ls \<noteq> []" by simp
  have ret: "\<forall>l \<in> set ?ls.
      calculate_distance_km 0 0 (pl_latitude l) (pl_longitude l) = Inr (?D l)"
    by (simp add: exact_distance_to)
  from find_nearest_planned_location_spec
         [where routine = calculate_distance_km and lat = 0 and lon = 0 and locations = ?ls
            and ds = ?D] ne ret
  obtain i where i: "i < length ?ls"
    and res: "find_nearest_planned_location calculate_distance_km 0 0 ?ls =
                Inr (Some (?ls ! i), Fin (?D (?ls ! i)))"
    and least: "\<forall>j < length ?ls. ?D (?ls ! i) \<le> ?D (?ls ! j)"
    and first: "\<forall>j < i. ?D (?ls ! i) < ?D (?ls ! j)"
    by blast
  have "i = 0 \<or> i = 1 \<or> i = 2" using i by auto
  moreover have "i \<noteq> 0"
  proof
    assume "i = 0"
    with least [rule_format, of 1]
    have "?D (?ls ! 0) \<le> ?D (?ls ! 1)" by simp
    then show False using pi_gt_zero by (simp add: distance_to_examples)
  qed
  moreover have "i \<noteq> 2"
  proof
    assume "i = 2"
    with first [rule_format, of 1]
    have "?D (?ls ! 2) < ?D (?ls ! 1)" by simp
    then show False by (simp add: distance_to_examples)
  qed
  ultimately have "i = 1" by blast
  with res have pos: "find_nearest_planned_location calculate_distance_km 0 0 ?ls =
                        Inr (Some (waypoint 12 0 0 5), Fin 0)"
    by (simp add: distance_to_examples)
  let ?F = "failing_at 8 (- 1) (- 8) 179"
  let ?fs = "[waypoint 11 0 0 5, waypoint 12 (- 8) 179 5]"
  have f0: "?F 8 (- 1) 0 0 = Inr (haversine_km 8 (- 1) 0 0)"
    by (simp add: failing_at_elsewhere)
  have f1: "?F 8 (- 1) (- 8) 179 = Inl ValueError"
    by simp
  have k: "(1::nat) < length ?fs" by simp
  have at: "?F 8 (- 1) (pl_latitude (?fs ! 1)) (pl_longitude (?fs ! 1)) = Inl ValueError"
    by simp
  have before: "\<forall>j < (1::nat). \<exists>d. ?F 8 (- 1) (pl_latitude (?fs ! j))
                                     (pl_longitude (?fs ! j)) = Inr d"
    by (simp add: f0)
  from find_nearest_planned_location_spec
         [where routine = ?F and lat = 8 and lon = "- 1" and locations = ?fs and k = 1
            and e = ValueError] k at before
  have neg: "find_nearest_planned_location ?F 8 (- 1) ?fs = Inl ValueError"
    by blast
  have far: "calculate_distance_km 0 0 0 180 = Inr (6371 * pi)"
    by (simp add: calculate_distance_km_eq haversine_km_half_turn)
  have here: "calculate_distance_km 0 0 0 0 = Inr 0"
    by (simp add: calculate_distance_km_eq haversine_km_same)
  from ne far here pos f0 f1 neg show ?thesis by blast
qed
section \<open>Properties of DeviationDetector\<close>

lemma find_nearest_Min:
  assumes "locations \<noteq> []"
    and "\<forall>l \<in> set locations. routine lat lon (pl_latitude l) (pl_longitude l) = Inr (ds l)"
  shows "\<exists>l \<in> set locations.
           find_nearest_planned_location routine lat lon locations =
             Inr (Some l, Fin (nearest_distance ds locations))"
proof -
  from find_nearest_nonempty
         [where locations = locations and routine = routine and lat = lat and lon = lon
            and ds = ds, OF assms]
  obtain i where
    i: "i < length locations"
    and res: "find_nearest_planned_location routine lat lon locations =
                Inr (Some (locations ! i), Fin (ds (locations ! i)))"
    and least: "\<forall>j < length locations. ds (locations ! i) \<le> ds (locations ! j)"
    by blast
  have "Min (set (map ds locations)) = ds (locations ! i)"
  proof (rule Min_eqI)
    show "finite (set (map ds locations))" by simp
    show "ds (locations ! i) \<in> set (map ds locations)"
      using i by simp
    fix y assume "y \<in> set (map ds locations)"
    then obtain j where "j < length locations" "y = ds (locations ! j)"
      by (auto simp: in_set_conv_nth)
    with least show "ds (locations ! i) \<le> y" by simp
  qed
  with res i show ?thesis
    by (auto simp: nearest_distance_def intro!: bexI [of _ "locations ! i"])
qed

lemma fresh_alert_id_ticks [simp]: "fresh_alert_id (w\<lparr>ticks := n\<rparr>) = fresh_alert_id w"
  by (simp add: fresh_alert_id_def)

lemma check_deviation_alert_nonempty:
  assumes "query_planned_locations w trip \<noteq> []"
    and "\<forall>l \<in> set (query_planned_locations w trip).
           routine (lu_latitude location_update) (lu_longitude location_update)
             (pl_latitude l) (pl_longitude l) = Inr (ds l)"
  shows "check_deviation_alert routine w location_update trip =
     (let d = nearest_distance ds (query_planned_locations w trip);
          alert = deviation_alert_of w location_update trip (Fin d)
      in if deviation_threshold_km trip < d
         then Inr (Some alert,
                   w\<lparr>ticks := Suc (Suc (ticks w)), safety_alerts := safety_alerts w @ [alert]\<rparr>)
         else Inr (None, w))"
proof -
  from find_nearest_Min
         [where locations = "query_planned_locations w trip" and routine = routine
            and lat = "lu_latitude location_update" and lon = "lu_longitude location_update"
            and ds = ds, OF assms]
  obtain l where
    "find_nearest_planned_location routine (lu_latitude location_update)
       (lu_longitude location_update) (query_planned_locations w trip) =
     Inr (Some l, Fin (nearest_distance ds (query_planned_locations w trip)))"
    by blast
  then show ?thesis
    using assms(1)
    by (simp add: check_deviation_alert_def Let_def fl_greater_def utcnow_def add_alert_def
          deviation_alert_of_def)
qed

lemma check_deviation_alert_raises:
  assumes "k < length (query_planned_locations w trip)"
    and "routine (lu_latitude location_update) (lu_longitude location_update)
           (pl_latitude (query_planned_locations w trip ! k))
           (pl_longitude (query_planned_locations w trip ! k)) = Inl e"
    and "\<forall>j < k. \<exists>d. routine (lu_latitude location_update) (lu_longitude location_update)
           (pl_latitude (query_planned_locations w trip ! j))
           (pl_longitude (query_planned_locations w trip ! j)) = Inr d"
  shows "check_deviation_alert routine w location_update trip = Inl e"
proof -
  have ne: "query_planned_locations w trip \<noteq> []" using assms(1) by auto
  have "find_nearest_planned_location routine (lu_latitude location_update)
          (lu_longitude location_update) (query_planned_locations w trip) = Inl e"
    by (rule find_nearest_raises
          [where k = k and locations = "query_planned_locations w trip" and routine = routine
             and lat = "lu_latitude location_update" and lon = "lu_longitude location_update"
             and e = e, OF assms])
  with ne show ?thesis
    by (simp add: check_deviation_alert_def Let_def)
qed

lemma trip_with_sel [simp]:
  "trip_id (trip_with t km) = t"
  "deviation_threshold_km (trip_with t km) = km"
  by (simp_all add: trip_with_def)

lemma sample_sel [simp]:
  "lu_latitude (sample i lat lon ts u t) = lat"
  "lu_longitude (sample i lat lon ts u t) = lon"
  "lu_timestamp (sample i lat lon ts u t) = ts"
  "lu_user_id (sample i lat lon ts u t) = u"
  "lu_trip_id (sample i lat lon ts u t) = t"
  by (simp_all add: sample_def)

lemma world_with_sel [simp]:
  "planned_locations (world_with pls lus als clk) = pls"
  "location_updates (world_with pls lus als clk) = lus"
  "safety_alerts (world_with pls lus als clk) = als"
  "clock (world_with pls lus als clk) = clk"
  "ticks (world_with pls lus als clk) = 0"
  by (simp_all add: world_with_def)

text \<open>
  C7. Whenever the trip has no planned locations, the deviation check returns none and
  changes nothing, whatever the coordinates of the location update; the distance routine
  is not called.
\<close>

theorem deviation_none_without_waypoints:
  "query_planned_locations w trip = [] \<Longrightarrow>
   check_deviation_alert routine w location_update trip = Inr (None, w)"
  by (simp add: check_deviation_alert_def)

theorem deviation_none_without_waypoints_witness:
  "query_planned_locations (world_with [waypoint 11 0 0 6] [] [] (\<lambda>n. int n)) (trip_with 5 2) = [] \<and>
   check_deviation_alert calculate_distance_km (world_with [waypoint 11 0 0 6] [] [] (\<lambda>n. int n))
       (sample 20 0 180 0 7 5) (trip_with 5 2) =
     Inr (None, world_with [waypoint 11 0 0 6] [] [] (\<lambda>n. int n))"
proof -
  have q: "query_planned_locations (world_with [waypoint 11 0 0 6] [] [] (\<lambda>n. int n))
             (trip_with 5 2) = []"
    by (simp add: query_planned_locations_def)
  from deviation_none_without_waypoints [OF q] q show ?thesis by simp
qed

text \<open>
  C5. For any distance routine, when the trip has planned locations: if the routine returns
  a distance for each of them, the deviation check creates an alert exactly when the
  smallest of these distances is strictly greater than the trip's threshold, and at the
  threshold itself it returns none; the alert created has type deviation, status active,
  the coordinates of the update, and the nearest distance as its distance from the plan,
  and it is the one row added to the alerts. If the routine raises at a planned location,
  having returned at those before it, the check returns nothing and raises that error.
\<close>

theorem deviation_alert_iff_beyond_threshold:
  assumes "query_planned_locations w trip \<noteq> []"
  shows "((\<forall>l \<in> set (query_planned_locations w trip).
             routine (lu_latitude location_update) (lu_longitude location_update)
               (pl_latitude l) (pl_longitude l) = Inr (ds l)) \<longrightarrow>
          (let d = nearest_distance ds (query_planned_locations w trip)
           in (deviation_threshold_km trip < d \<longrightarrow>
                 (\<exists>alert w'. check_deviation_alert routine w location_update trip =
                                Inr (Some alert, w') \<and>
                     alert_type alert = ''deviation'' \<and> status alert = ''active'' \<and>
                     distance_from_planned_km alert = Some (Fin d) \<and>
                     latitude alert = lu_latitude location_update \<and>
                     longitude alert = lu_longitude location_update \<and>
                     safety_alerts w' = safety_alerts w @ [alert])) \<and>
              (d \<le> deviation_threshold_km trip \<longrightarrow>
                 check_deviation_alert routine w location_update trip = Inr (None, w)))) \<and>
         (k < length (query_planned_locations w trip) \<and>
          routine (lu_latitude location_update) (lu_longitude location_update)
            (pl_latitude (query_planned_locations w trip ! k))
            (pl_longitude (query_planned_locations w trip ! k)) = Inl e \<and>
          (\<forall>j < k. \<exists>d. routine (lu_latitude location_update) (lu_longitude location_update)
            (pl_latitude (query_planned_locations w trip ! j))
            (pl_longitude (query_planned_locations w trip ! j)) = Inr d) \<longrightarrow>
          check_deviation_alert routine w location_update trip = Inl e)"
proof (intro conjI impI)
  assume ret: "\<forall>l \<in> set (query_planned_locations w trip).
             routine (lu_latitude location_update) (lu_longitude location_update)
               (pl_latitude l) (pl_longitude l) = Inr (ds l)"
  show "let d = nearest_distance ds (query_planned_locations w trip)
           in (deviation_threshold_km trip < d \<longrightarrow>
                 (\<exists>alert w'. check_deviation_alert routine w location_update trip =
                                Inr (Some alert, w') \<and>
                     alert_type alert = ''deviation'' \<and> status alert = ''active'' \<and>
                     distance_from_planned_km alert = Some (Fin d) \<and>
                     latitude alert = lu_latitude location_update \<and>
                     longitude alert = lu_longitude location_update \<and>
                     safety_alerts w' = safety_alerts w @ [alert])) \<and>
              (d \<le> deviation_threshold_km trip \<longrightarrow>
                 check_deviation_alert routine w location_update trip = Inr (None, w))"
    unfolding check_deviation_alert_nonempty
                [where routine = routine and ds = ds, OF assms ret]
    by (simp add: Let_def deviation_alert_of_def)
next
  assume "k < length (query_planned_locations w trip) \<and>
          routine (lu_latitude location_update) (lu_longitude location_update)
            (pl_latitude (query_planned_locations w trip ! k))
            (pl_longitude (query_planned_locations w trip ! k)) = Inl e \<and>
          (\<forall>j < k. \<exists>d. routine (lu_latitude location_update) (lu_longitude location_update)
            (pl_latitude (query_planned_locations w trip ! j))
            (pl_longitude (query_planned_locations w trip ! j)) = Inr d)"
  then show "check_deviation_alert routine w location_update trip = Inl e"
    using check_deviation_alert_raises
            [where k = k and w = w and trip = trip and routine = routine
               and location_update = location_update and e = e]
    by blast
qed

lemma far_beyond_two: "(2::real) < 6371 * pi"
  using pi_ge_two by linarith

theorem deviation_alert_iff_beyond_threshold_witness:
  "query_planned_locations (world_with [waypoint 11 0 180 5] [] [] (\<lambda>n. int n)) (trip_with 5 2) \<noteq> [] \<and>
   calculate_distance_km 0 0 0 180 = Inr (6371 * pi) \<and>
   check_deviation_alert calculate_distance_km
       (world_with [waypoint 11 0 180 5] [] [] (\<lambda>n. int n))
       (sample 20 0 0 0 7 5) (trip_with 5 (6371 * pi)) =
     Inr (None, world_with [waypoint 11 0 180 5] [] [] (\<lambda>n. int n)) \<and>
   (\<exists>alert w'. check_deviation_alert calculate_distance_km
       (world_with [waypoint 11 0 180 5] [] [] (\<lambda>n. int n))
       (sample 20 0 0 0 7 5) (trip_with 5 2) = Inr (Some alert, w') \<and>
     alert_type alert = ''deviation'' \<and> status alert = ''active'' \<and>
     distance_from_planned_km alert = Some (Fin (6371 * pi))) \<and>
   query_planned_locations (world_with [waypoint 12 (- 8) 179 5] [] [] (\<lambda>n. int n))
     (trip_with 5 2) \<noteq> [] \<and>
   failing_at 8 (- 1) (- 8) 179 8 (- 1) (- 8) 179 = Inl ValueError \<and>
   check_deviation_alert (failing_at 8 (- 1) (- 8) 179)
       (world_with [waypoint 12 (- 8) 179 5] [] [] (\<lambda>n. int n))
       (sample 20 8 (- 1) 0 7 5) (trip_with 5 2) = Inl ValueError"
proof -
  let ?w = "world_with [waypoint 11 0 180 5] [] [] (\<lambda>n. int n)"
  let ?D = "distance_to 0 0"
  have q: "query_planned_locations ?w (trip_with 5 km) = [waypoint 11 0 180 5]" for km
    by (simp add: query_planned_locations_def)
  have d: "nearest_distance ?D [waypoint 11 0 180 5] = 6371 * pi"
    by (simp add: nearest_distance_def distance_to_examples)
  have ne: "query_planned_locations ?w (trip_with 5 km) \<noteq> []" for km
    by (simp add: q)
  have ret: "\<forall>l \<in> set (query_planned_locations ?w (trip_with 5 km)).
               calculate_distance_km (lu_latitude (sample 20 0 0 0 7 5))
                 (lu_longitude (sample 20 0 0 0 7 5)) (pl_latitude l) (pl_longitude l) =
               Inr (?D l)" for km
    using exact_distance_to [of 0 0 "waypoint 11 0 180 5"] by (simp add: q)
  have exact: "calculate_distance_km 0 0 0 180 = Inr (6371 * pi)"
    by (simp add: calculate_distance_km_eq haversine_km_half_turn)
  have at: "check_deviation_alert calculate_distance_km ?w (sample 20 0 0 0 7 5)
              (trip_with 5 (6371 * pi)) = Inr (None, ?w)"
    using deviation_alert_iff_beyond_threshold
            [where routine = calculate_distance_km and ds = ?D
               and location_update = "sample 20 0 0 0 7 5", OF ne [of "6371 * pi"]]
          ret [of "6371 * pi"]
    by (simp add: q d Let_def)
  have beyond: "\<exists>alert w'. check_deviation_alert calculate_distance_km ?w (sample 20 0 0 0 7 5)
                   (trip_with 5 2) = Inr (Some alert, w') \<and>
     alert_type alert = ''deviation'' \<and> status alert = ''active'' \<and>
     distance_from_planned_km alert = Some (Fin (6371 * pi))"
    using deviation_alert_iff_beyond_threshold
            [where routine = calculate_distance_km and ds = ?D
               and location_update = "sample 20 0 0 0 7 5", OF ne [of 2]]
          ret [of 2] far_beyond_two
    by (simp add: q d Let_def) blast
  let ?v = "world_with [waypoint 12 (- 8) 179 5] [] [] (\<lambda>n. int n)"
  let ?F = "failing_at 8 (- 1) (- 8) 179"
  have qv: "query_planned_locations ?v (trip_with 5 2) = [waypoint 12 (- 8) 179 5]"
    by (simp add: query_planned_locations_def)
  have nev: "query_planned_locations ?v (trip_with 5 2) \<noteq> []"
    by (simp add: qv)
  have f1: "?F 8 (- 1) (- 8) 179 = Inl ValueError"
    by simp
  have raises: "check_deviation_alert ?F ?v (sample 20 8 (- 1) 0 7 5) (trip_with 5 2) =
                  Inl ValueError"
    using deviation_alert_iff_beyond_threshold
            [where routine = ?F and location_update = "sample 20 8 (- 1) 0 7 5" and k = 0
               and e = ValueError, OF nev]
    by (simp add: qv)
  from ne [of 2] exact at beyond nev f1 raises show ?thesis by blast
qed
section \<open>Properties of StationarityDetector\<close>

lemma stationary_loop_still:
  assumes "\<forall>l \<in> set ls. \<exists>d. routine (lu_latitude latest) (lu_longitude latest)
                               (lu_latitude l) (lu_longitude l) = Inr d \<and> d \<le> 0.5"
  shows "stationary_loop routine latest ls = Inr True"
  using assms
proof (induction ls)
  case Nil
  show ?case by simp
next
  case (Cons x xs)
  from Cons.prems obtain d where
    d: "routine (lu_latitude latest) (lu_longitude latest) (lu_latitude x) (lu_longitude x) = Inr d"
    and le: "d \<le> 0.5"
    by auto
  have "stationary_loop routine latest xs = Inr True"
    using Cons.IH Cons.prems by simp
  then show ?case using d le by simp
qed

text \<open>
  The loop breaks at the first update that is more than 0.5 km from the latest one; an
  update is reached only if the routine has returned for every update before it.
\<close>

lemma stationary_loop_moved:
  assumes "k < length ls"
    and "routine (lu_latitude latest) (lu_longitude latest)
           (lu_latitude (ls ! k)) (lu_longitude (ls ! k)) = Inr d"
    and "0.5 < d"
    and "\<forall>j < k. \<exists>d'. routine (lu_latitude latest) (lu_longitude latest)
                         (lu_latitude (ls ! j)) (lu_longitude (ls ! j)) = Inr d'"
  shows "stationary_loop routine latest ls = Inr False"
  using assms
proof (induction ls arbitrary: k)
  case Nil
  then show ?case by simp
next
  case (Cons x xs)
  show ?case
  proof (cases k)
    case 0
    with Cons.prems(2,3) show ?thesis by simp
  next
    case (Suc k')
    from Cons.prems(4) [rule_format, of 0] Suc
    obtain d' where d': "routine (lu_latitude latest) (lu_longitude latest)
                           (lu_latitude x) (lu_longitude x) = Inr d'"
      by auto
    have k': "k' < length xs"
      using Cons.prems(1) Suc by simp
    have at: "routine (lu_latitude latest) (lu_longitude latest)
                (lu_latitude (xs ! k')) (lu_longitude (xs ! k')) = Inr d"
      using Cons.prems(2) Suc by simp
    have before: "\<forall>j < k'. \<exists>d'. routine (lu_latitude latest) (lu_longitude latest)
                              (lu_latitude (xs ! j)) (lu_longitude (xs ! j)) = Inr d'"
    proof (intro allI impI)
      fix j assume "j < k'"
      then have "Suc j < k" using Suc by simp
      from Cons.prems(4) [rule_format, OF this]
      show "\<exists>d'. routine (lu_latitude latest) (lu_longitude latest)
                    (lu_latitude (xs ! j)) (lu_longitude (xs ! j)) = Inr d'"
        by simp
    qed
    have "stationary_loop routine latest xs = Inr False"
      by (rule Cons.IH [OF k' at Cons.prems(3) before])
    then show ?thesis using d' by simp
  qed
qed

lemma query_ticks [simp]:
  "query_recent_locations (w\<lparr>ticks := n\<rparr>) uid trip t = query_recent_locations w uid trip t"
  "query_planned_locations (w\<lparr>ticks := n\<rparr>) trip = query_planned_locations w trip"
  by (simp_all add: query_recent_locations_def query_planned_locations_def)

lemma check_stationary_alert_moved:
  assumes "k < length (tl (recent_window w uid trip))"
    and "routine (lu_latitude (hd (recent_window w uid trip)))
           (lu_longitude (hd (recent_window w uid trip)))
           (lu_latitude (tl (recent_window w uid trip) ! k))
           (lu_longitude (tl (recent_window w uid trip) ! k)) = Inr d"
    and "0.5 < d"
    and "\<forall>j < k. \<exists>d'. routine (lu_latitude (hd (recent_window w uid trip)))
           (lu_longitude (hd (recent_window w uid trip)))
           (lu_latitude (tl (recent_window w uid trip) ! j))
           (lu_longitude (tl (recent_window w uid trip) ! j)) = Inr d'"
  shows "check_stationary_alert routine w uid trip = Inr (None, w\<lparr>ticks := Suc (ticks w)\<rparr>)"
proof -
  have "stationary_loop routine (hd (recent_window w uid trip)) (tl (recent_window w uid trip)) =
          Inr False"
    by (rule stationary_loop_moved
          [where routine = routine and latest = "hd (recent_window w uid trip)"
             and ls = "tl (recent_window w uid trip)" and k = k and d = d, OF assms])
  then show ?thesis
    by (simp add: check_stationary_alert_def recent_window_def utcnow_def Let_def)
qed

lemma check_stationary_alert_still:
  assumes "2 \<le> length (recent_window w uid trip)"
    and "\<forall>l \<in> set (tl (recent_window w uid trip)).
           \<exists>d. routine (lu_latitude (hd (recent_window w uid trip)))
                  (lu_longitude (hd (recent_window w uid trip)))
                  (lu_latitude l) (lu_longitude l) = Inr d \<and> d \<le> 0.5"
    and "\<forall>p \<in> set (query_planned_locations w trip).
           routine (lu_latitude (hd (recent_window w uid trip)))
             (lu_longitude (hd (recent_window w uid trip)))
             (pl_latitude p) (pl_longitude p) = Inr (ds p)"
  shows "check_stationary_alert routine w uid trip =
     (let latest = hd (recent_window w uid trip);
          locations = query_planned_locations w trip;
          d = (if locations = [] then PInf else Fin (nearest_distance ds locations));
          alert = stationary_alert_of w uid trip latest d
      in if fl_less (Fin 1) d
         then Inr (Some alert,
                   w\<lparr>ticks := Suc (Suc (Suc (ticks w))),
                     safety_alerts := safety_alerts w @ [alert]\<rparr>)
         else Inr (None, w\<lparr>ticks := Suc (ticks w)\<rparr>))"
proof -
  have loop: "stationary_loop routine (hd (recent_window w uid trip))
                (tl (recent_window w uid trip)) = Inr True"
    by (rule stationary_loop_still
          [where routine = routine and latest = "hd (recent_window w uid trip)"
             and ls = "tl (recent_window w uid trip)", OF assms(2)])
  have len: "\<not> length (recent_window w uid trip) < 2"
    using assms(1) by simp
  show ?thesis
  proof (cases "query_planned_locations w trip = []")
    case True
    then show ?thesis
      using loop len
      by (simp add: check_stationary_alert_def recent_window_def [symmetric] utcnow_def Let_def
            find_nearest_planned_location_def fl_greater_def add_alert_def
            stationary_alert_of_def)
  next
    case False
    from find_nearest_Min
           [where locations = "query_planned_locations w trip" and routine = routine
              and lat = "lu_latitude (hd (recent_window w uid trip))"
              and lon = "lu_longitude (hd (recent_window w uid trip))"
              and ds = ds, OF False assms(3)]
    obtain l where
      "find_nearest_planned_location routine (lu_latitude (hd (recent_window w uid trip)))
         (lu_longitude (hd (recent_window w uid trip))) (query_planned_locations w trip) =
       Inr (Some l, Fin (nearest_distance ds (query_planned_locations w trip)))"
      by blast
    then show ?thesis
      using loop len False
      by (simp add: check_stationary_alert_def recent_window_def [symmetric] utcnow_def Let_def
            fl_greater_def add_alert_def stationary_alert_of_def)
  qed
qed

text \<open>In exact arithmetic the routine returns, and the movement test is \<open>moved_from\<close>.\<close>

lemma exact_within:
  "\<not> moved_from a b \<Longrightarrow>
   \<exists>d. calculate_distance_km (lu_latitude a) (lu_longitude a) (lu_latitude b) (lu_longitude b) =
         Inr d \<and> d \<le> 0.5"
  by (simp add: calculate_distance_km_eq moved_from_def)

lemma pi_ge_three: "3 \<le> pi"
proof -
  have "sin (pi / 6) \<le> pi / 6"
    by (rule sin_x_le_x) simp
  then show ?thesis by (simp add: sin_30)
qed

lemma haversine_km_meridian:
  assumes "\<bar>lat2 - lat1\<bar> < 180"
  shows "haversine_km lat1 lon lat2 lon = 6371 * \<bar>radians (lat2 - lat1)\<bar>"
proof -
  define t where "t = \<bar>radians (lat2 - lat1)\<bar> / 2"
  have t0: "0 \<le> t" by (simp add: t_def)
  have "\<bar>radians (lat2 - lat1)\<bar> < pi"
  proof -
    have "\<bar>radians (lat2 - lat1)\<bar> = \<bar>lat2 - lat1\<bar> * pi / 180"
      by (simp add: radians_def abs_mult)
    also have "\<dots> < 180 * pi / 180"
      using assms by (intro divide_strict_right_mono mult_strict_right_mono) simp_all
    finally show ?thesis by simp
  qed
  then have t1: "t < pi / 2" by (simp add: t_def)
  have a: "haversine_a lat1 lon lat2 lon = (sin t)\<^sup>2"
  proof -
    have "(sin (radians (lat2 - lat1) / 2))\<^sup>2 = (sin (\<bar>radians (lat2 - lat1)\<bar> / 2))\<^sup>2"
      by (cases "0 \<le> radians (lat2 - lat1)") (simp_all add: abs_if)
    then show ?thesis
      by (simp add: haversine_a_def Let_def t_def radians_def)
  qed
  have s: "0 \<le> sin t" using t0 t1 pi_gt_zero by (intro sin_ge_zero) linarith+
  have c: "0 < cos t" using t0 t1 by (intro cos_gt_zero_pi) linarith+
  have sa: "sqrt (haversine_a lat1 lon lat2 lon) = sin t"
    using s by (simp add: a)
  have "1 - haversine_a lat1 lon lat2 lon = (cos t)\<^sup>2"
    by (simp add: a cos_squared_eq)
  then have sb: "sqrt (1 - haversine_a lat1 lon lat2 lon) = cos t"
    using c by simp
  have "atan2 (sin t) (cos t) = arctan (tan t)"
    using c by (simp add: atan2_def tan_def)
  also have "\<dots> = t"
    using t0 t1 by (intro arctan_tan) linarith+
  finally show ?thesis
    by (simp add: haversine_km_def sa sb t_def)
qed


lemma sort_two_desc:
  "query_recent_locations (world_with pls [sample 21 la lo 15000000000 7 5, sample 23 la' lo' 10000000000 7 5] als ticking_clock)
     7 (trip_with 5 km) (ticking_clock 0 - hours 4) =
   [sample 21 la lo 15000000000 7 5, sample 23 la' lo' 10000000000 7 5]"
  by (simp add: query_recent_locations_def ticking_clock_def hours_def)

text \<open>
  C3. With no planned locations for the trip and two updates at the same place inside the
  window, the stationarity check does not return none: the nearest distance is infinity,
  which is greater than 1, and an alert with that distance is stored. (The deviation
  check guards this case; see C7.) The distance between the two updates is 0, in exact
  arithmetic as on doubles.
\<close>

theorem stationary_alert_without_waypoints:
  "query_planned_locations
     (world_with [] [sample 21 0 0 15000000000 7 5, sample 23 0 0 10000000000 7 5] [] ticking_clock)
     (trip_with 5 2) = [] \<and>
   check_stationary_alert calculate_distance_km
     (world_with [] [sample 21 0 0 15000000000 7 5, sample 23 0 0 10000000000 7 5] [] ticking_clock)
     7 (trip_with 5 2) =
   Inr (Some \<lparr>alert_id = 1, alert_type = ''stationary'', status = ''active'',
               title = ''Stationary Alert'', latitude = 0, longitude = 0,
               distance_from_planned_km = Some PInf,
               triggered_at = 20000000001, response_deadline = 20900000002,
               responded_at = None, response_message = None,
               user_id = 7, alert_trip_id = 5\<rparr>,
        \<lparr>planned_locations = [],
         location_updates = [sample 21 0 0 15000000000 7 5, sample 23 0 0 10000000000 7 5],
         safety_alerts = [\<lparr>alert_id = 1, alert_type = ''stationary'', status = ''active'',
               title = ''Stationary Alert'', latitude = 0, longitude = 0,
               distance_from_planned_km = Some PInf,
               triggered_at = 20000000001, response_deadline = 20900000002,
               responded_at = None, response_message = None,
               user_id = 7, alert_trip_id = 5\<rparr>],
         clock = ticking_clock, ticks = 3\<rparr>)"
proof -
  let ?w = "world_with [] [sample 21 0 0 15000000000 7 5, sample 23 0 0 10000000000 7 5] []
              ticking_clock"
  have win: "recent_window ?w 7 (trip_with 5 2) =
               [sample 21 0 0 15000000000 7 5, sample 23 0 0 10000000000 7 5]"
    using sort_two_desc [of "[]" 0 0 0 0 "[]" 2] by (simp add: recent_window_def)
  have q: "query_planned_locations ?w (trip_with 5 2) = []"
    by (simp add: query_planned_locations_def)
  have still: "\<forall>l \<in> set (tl (recent_window ?w 7 (trip_with 5 2))).
           \<exists>d. calculate_distance_km (lu_latitude (hd (recent_window ?w 7 (trip_with 5 2))))
                  (lu_longitude (hd (recent_window ?w 7 (trip_with 5 2))))
                  (lu_latitude l) (lu_longitude l) = Inr d \<and> d \<le> 0.5"
    by (simp add: win calculate_distance_km_eq haversine_km_same)
  have len: "2 \<le> length (recent_window ?w 7 (trip_with 5 2))"
    by (simp add: win)
  have none: "\<forall>p \<in> set (query_planned_locations ?w (trip_with 5 2)).
           calculate_distance_km (lu_latitude (hd (recent_window ?w 7 (trip_with 5 2))))
             (lu_longitude (hd (recent_window ?w 7 (trip_with 5 2))))
             (pl_latitude p) (pl_longitude p) = Inr (distance_to 0 0 p)"
    by (simp add: q)
  show ?thesis
    unfolding check_stationary_alert_still
                [where routine = calculate_distance_km and ds = "distance_to 0 0",
                 OF len still none]
    by (simp add: q win Let_def stationary_alert_of_def fresh_alert_id_def ticking_clock_def
          minutes_def)
qed

lemma near_pair [simp]:
  "\<not> moved_from (sample i 0 0 ts u t) (sample i' (3 / 1000) 0 ts' u' t')"
  "\<not> moved_from (sample i 0 0 ts u t) (sample i' (- (3 / 1000)) 0 ts' u' t')"
proof -
  have "6371 * (3 * pi / 180000) \<le> (1 / 2 :: real)"
    using pi_less_4 by simp
  then show "\<not> moved_from (sample i 0 0 ts u t) (sample i' (3 / 1000) 0 ts' u' t')"
    by (simp add: moved_from_def haversine_km_meridian radians_def abs_mult)
  have "6371 * (3 * pi / 180000) \<le> (1 / 2 :: real)"
    using pi_less_4 by simp
  then show "\<not> moved_from (sample i 0 0 ts u t) (sample i' (- (3 / 1000)) 0 ts' u' t')"
    by (simp add: moved_from_def haversine_km_meridian radians_def abs_mult)
qed

lemma far_pair:
  "moved_from (sample i (3 / 1000) 0 ts u t) (sample i' (- (3 / 1000)) 0 ts' u' t')"
proof -
  have "(1 / 2 :: real) < 6371 * (6 * pi / 180000)"
    using pi_ge_three by simp
  then show ?thesis
    by (simp add: moved_from_def haversine_km_meridian radians_def abs_mult)
qed


text \<open>
  C4, as stated, fails: two updates of the window are more than 0.5 km apart, each is
  within 0.5 km of the latest update, and the alert fires.
\<close>

theorem stationary_alert_despite_distant_pair:
  "moved_from (sample 22 (3 / 1000) 0 12000000000 7 5) (sample 23 (- (3 / 1000)) 0 10000000000 7 5) \<and>
   recent_window
     (world_with [waypoint 11 0 180 5]
        [sample 21 0 0 15000000000 7 5, sample 22 (3 / 1000) 0 12000000000 7 5,
         sample 23 (- (3 / 1000)) 0 10000000000 7 5] [] ticking_clock)
     7 (trip_with 5 2) =
     [sample 21 0 0 15000000000 7 5, sample 22 (3 / 1000) 0 12000000000 7 5,
      sample 23 (- (3 / 1000)) 0 10000000000 7 5] \<and>
   check_stationary_alert calculate_distance_km
     (world_with [waypoint 11 0 180 5]
        [sample 21 0 0 15000000000 7 5, sample 22 (3 / 1000) 0 12000000000 7 5,
         sample 23 (- (3 / 1000)) 0 10000000000 7 5] [] ticking_clock)
     7 (trip_with 5 2) =
   Inr (Some \<lparr>alert_id = 1, alert_type = ''stationary'', status = ''active'',
               title = ''Stationary Alert'', latitude = 0, longitude = 0,
               distance_from_planned_km = Some (Fin (6371 * pi)),
               triggered_at = 20000000001, response_deadline = 20900000002,
               responded_at = None, response_message = None,
               user_id = 7, alert_trip_id = 5\<rparr>,
        (world_with [waypoint 11 0 180 5]
           [sample 21 0 0 15000000000 7 5, sample 22 (3 / 1000) 0 12000000000 7 5,
            sample 23 (- (3 / 1000)) 0 10000000000 7 5] [] ticking_clock)
        \<lparr>ticks := 3,
          safety_alerts := [\<lparr>alert_id = 1, alert_type = ''stationary'', status = ''active'',
               title = ''Stationary Alert'', latitude = 0, longitude = 0,
               distance_from_planned_km = Some (Fin (6371 * pi)),
               triggered_at = 20000000001, response_deadline = 20900000002,
               responded_at = None, response_message = None,
               user_id = 7, alert_trip_id = 5\<rparr>]\<rparr>)"
proof -
  let ?w = "world_with [waypoint 11 0 180 5]
        [sample 21 0 0 15000000000 7 5, sample 22 (3 / 1000) 0 12000000000 7 5,
         sample 23 (- (3 / 1000)) 0 10000000000 7 5] [] ticking_clock"
  have win: "recent_window ?w 7 (trip_with 5 2) =
     [sample 21 0 0 15000000000 7 5, sample 22 (3 / 1000) 0 12000000000 7 5,
      sample 23 (- (3 / 1000)) 0 10000000000 7 5]"
    by (simp add: recent_window_def query_recent_locations_def ticking_clock_def hours_def)
  have q: "query_planned_locations ?w (trip_with 5 2) = [waypoint 11 0 180 5]"
    by (simp add: query_planned_locations_def)
  have d: "nearest_distance (distance_to 0 0) [waypoint 11 0 180 5] = 6371 * pi"
    by (simp add: nearest_distance_def distance_to_examples)
  have still: "\<forall>l \<in> set (tl (recent_window ?w 7 (trip_with 5 2))).
           \<exists>d. calculate_distance_km (lu_latitude (hd (recent_window ?w 7 (trip_with 5 2))))
                  (lu_longitude (hd (recent_window ?w 7 (trip_with 5 2))))
                  (lu_latitude l) (lu_longitude l) = Inr d \<and> d \<le> 0.5"
    unfolding win
    using exact_within [OF near_pair(1) [of 21 15000000000 7 5 22 12000000000 7 5]]
          exact_within [OF near_pair(2) [of 21 15000000000 7 5 23 10000000000 7 5]]
    by simp
  have len: "2 \<le> length (recent_window ?w 7 (trip_with 5 2))"
    by (simp add: win)
  have ret: "\<forall>p \<in> set (query_planned_locations ?w (trip_with 5 2)).
           calculate_distance_km (lu_latitude (hd (recent_window ?w 7 (trip_with 5 2))))
             (lu_longitude (hd (recent_window ?w 7 (trip_with 5 2))))
             (pl_latitude p) (pl_longitude p) = Inr (distance_to 0 0 p)"
    using exact_distance_to [of 0 0 "waypoint 11 0 180 5"] by (simp add: q win)
  have far: "(1::real) < 6371 * pi"
    using pi_ge_two by linarith
  have run: "check_stationary_alert calculate_distance_km ?w 7 (trip_with 5 2) =
     Inr (Some (stationary_alert_of ?w 7 (trip_with 5 2) (sample 21 0 0 15000000000 7 5)
                  (Fin (6371 * pi))),
          ?w\<lparr>ticks := 3,
             safety_alerts := [stationary_alert_of ?w 7 (trip_with 5 2)
                                 (sample 21 0 0 15000000000 7 5) (Fin (6371 * pi))]\<rparr>)"
    unfolding check_stationary_alert_still
                [where routine = calculate_distance_km and ds = "distance_to 0 0",
                 OF len still ret]
    using far by (simp add: q win d Let_def)
  have al: "stationary_alert_of ?w 7 (trip_with 5 2) (sample 21 0 0 15000000000 7 5)
              (Fin (6371 * pi)) =
            \<lparr>alert_id = 1, alert_type = ''stationary'', status = ''active'',
               title = ''Stationary Alert'', latitude = 0, longitude = 0,
               distance_from_planned_km = Some (Fin (6371 * pi)),
               triggered_at = 20000000001, response_deadline = 20900000002,
               responded_at = None, response_message = None,
               user_id = 7, alert_trip_id = 5\<rparr>"
    by (simp add: stationary_alert_of_def fresh_alert_id_def ticking_clock_def minutes_def)
  show ?thesis
    using far_pair win run unfolding al by simp
qed

text \<open>
  C4, amended. For any distance routine: if some other update of the window is more than
  0.5 km from the latest update, and the routine has returned a distance for every update
  that the scan visits before it (newest first), the stationarity check returns none and
  stores nothing, whatever the planned locations are.
\<close>

theorem movement_from_latest_disqualifies:
  assumes "k < length (tl (recent_window w uid trip))"
    and "routine (lu_latitude (hd (recent_window w uid trip)))
           (lu_longitude (hd (recent_window w uid trip)))
           (lu_latitude (tl (recent_window w uid trip) ! k))
           (lu_longitude (tl (recent_window w uid trip) ! k)) = Inr d"
    and "0.5 < d"
    and "\<forall>j < k. \<exists>d'. routine (lu_latitude (hd (recent_window w uid trip)))
           (lu_longitude (hd (recent_window w uid trip)))
           (lu_latitude (tl (recent_window w uid trip) ! j))
           (lu_longitude (tl (recent_window w uid trip) ! j)) = Inr d'"
  shows "check_stationary_alert routine w uid trip = Inr (None, w\<lparr>ticks := Suc (ticks w)\<rparr>)"
  by (rule check_stationary_alert_moved
        [where routine = routine and k = k and d = d, OF assms])

theorem movement_from_latest_disqualifies_witness:
  "tl (recent_window
         (world_with []
            [sample 21 0 0 15000000000 7 5, sample 22 (3 / 1000) 0 12000000000 7 5,
             sample 23 1 0 10000000000 7 5] [] ticking_clock)
         7 (trip_with 5 2)) =
     [sample 22 (3 / 1000) 0 12000000000 7 5, sample 23 1 0 10000000000 7 5] \<and>
   calculate_distance_km 0 0 (3 / 1000) 0 = Inr (6371 * (3 * pi / 180000)) \<and>
   calculate_distance_km 0 0 1 0 = Inr (6371 * (pi / 180)) \<and>
   (0.5 :: real) < 6371 * (pi / 180) \<and>
   check_stationary_alert calculate_distance_km
     (world_with []
        [sample 21 0 0 15000000000 7 5, sample 22 (3 / 1000) 0 12000000000 7 5,
         sample 23 1 0 10000000000 7 5] [] ticking_clock)
     7 (trip_with 5 2) =
   Inr (None,
        (world_with []
           [sample 21 0 0 15000000000 7 5, sample 22 (3 / 1000) 0 12000000000 7 5,
            sample 23 1 0 10000000000 7 5] [] ticking_clock)
        \<lparr>ticks := 1\<rparr>)"
proof -
  let ?w = "world_with []
        [sample 21 0 0 15000000000 7 5, sample 22 (3 / 1000) 0 12000000000 7 5,
         sample 23 1 0 10000000000 7 5] [] ticking_clock"
  have win: "recent_window ?w 7 (trip_with 5 2) =
               [sample 21 0 0 15000000000 7 5, sample 22 (3 / 1000) 0 12000000000 7 5,
                sample 23 1 0 10000000000 7 5]"
    by (simp add: recent_window_def query_recent_locations_def ticking_clock_def hours_def)
  have rest: "tl (recent_window ?w 7 (trip_with 5 2)) =
                [sample 22 (3 / 1000) 0 12000000000 7 5, sample 23 1 0 10000000000 7 5]"
    by (simp add: win)
  have near: "calculate_distance_km 0 0 (3 / 1000) 0 = Inr (6371 * (3 * pi / 180000))"
    by (simp add: calculate_distance_km_eq haversine_km_meridian radians_def)
  have dist: "calculate_distance_km 0 0 1 0 = Inr (6371 * (pi / 180))"
    by (simp add: calculate_distance_km_eq haversine_km_meridian radians_def)
  have big: "(0.5 :: real) < 6371 * (pi / 180)"
    using pi_ge_two by simp
  have k: "(1::nat) < length (tl (recent_window ?w 7 (trip_with 5 2)))"
    by (simp add: rest)
  have at: "calculate_distance_km
           (lu_latitude (hd (recent_window ?w 7 (trip_with 5 2))))
           (lu_longitude (hd (recent_window ?w 7 (trip_with 5 2))))
           (lu_latitude (tl (recent_window ?w 7 (trip_with 5 2)) ! 1))
           (lu_longitude (tl (recent_window ?w 7 (trip_with 5 2)) ! 1)) = Inr (6371 * (pi / 180))"
    using dist by (simp add: win)
  have before: "\<forall>j < (1::nat). \<exists>d'. calculate_distance_km
           (lu_latitude (hd (recent_window ?w 7 (trip_with 5 2))))
           (lu_longitude (hd (recent_window ?w 7 (trip_with 5 2))))
           (lu_latitude (tl (recent_window ?w 7 (trip_with 5 2)) ! j))
           (lu_longitude (tl (recent_window ?w 7 (trip_with 5 2)) ! j)) = Inr d'"
    by (simp add: win calculate_distance_km_eq)
  have "check_stationary_alert calculate_distance_km ?w 7 (trip_with 5 2) =
          Inr (None, ?w\<lparr>ticks := Suc (ticks ?w)\<rparr>)"
    by (rule movement_from_latest_disqualifies
          [where routine = calculate_distance_km and k = 1 and d = "6371 * (pi / 180)",
           OF k at big before])
  then have "check_stationary_alert calculate_distance_km ?w 7 (trip_with 5 2) =
               Inr (None, ?w\<lparr>ticks := 1\<rparr>)"
    by simp
  with rest near dist big show ?thesis by blast
qed
section \<open>Properties of the alert lifecycle\<close>

lemma reply_sel [simp]: "response (reply k m) = k" "message (reply k m) = m"
  by (simp_all add: reply_def)

lemma respond_to_alert_found:
  assumes "find (\<lambda>a. alert_id a = aid \<and> user_id a = uid) (safety_alerts w) = Some alert"
  shows "respond_to_alert w aid r uid =
     Inr ((''Alert response recorded: '' @ response r, aid),
          w\<lparr>ticks := Suc (ticks w),
            safety_alerts :=
              update_first (\<lambda>a. alert_id a = aid \<and> user_id a = uid)
                (responded_alert alert r (clock w (ticks w))) (safety_alerts w)\<rparr>)"
  using assms
  by (simp add: respond_to_alert_def Let_def utcnow_def responded_alert_def)

lemma respond_to_alert_missing:
  "find (\<lambda>a. alert_id a = aid \<and> user_id a = uid) (safety_alerts w) = None \<Longrightarrow>
   respond_to_alert w aid r uid = Inl (HTTPException 404 ''Alert not found'')"
  by (simp add: respond_to_alert_def)

lemma find_update_first:
  "find P xs = Some x \<Longrightarrow> P y \<Longrightarrow> find P (update_first P y xs) = Some y"
  by (induction xs) (auto split: if_splits)

lemma map_update_first:
  "find P xs = Some x \<Longrightarrow> f y = f x \<Longrightarrow> map f (update_first P y xs) = map f xs"
  by (induction xs) (auto split: if_splits)

lemma find_Some_holds: "find P xs = Some x \<Longrightarrow> P x"
  by (induction xs) (auto split: if_splits)

lemma responded_alert_keeps [simp]:
  "alert_id (responded_alert alert r now) = alert_id alert"
  "user_id (responded_alert alert r now) = user_id alert"
  "response_deadline (responded_alert alert r now) = response_deadline alert"
  "triggered_at (responded_alert alert r now) = triggered_at alert"
  "responded_at (responded_alert alert r now) = Some now"
  by (simp_all add: responded_alert_def)

text \<open>
  C1, as stated, fails: on an alert whose status is already responded_safe, a "help"
  response succeeds and rewrites the status, the response message and the response time.
\<close>

theorem respond_overwrites_answered_alert:
  "status answered_alert = ''responded_safe'' \<and>
   respond_to_alert (world_with [] [] [answered_alert] ticking_clock) 3 (reply ''help'' None) 7 =
     Inr ((''Alert response recorded: help'', 3),
          (world_with [] [] [answered_alert] ticking_clock)
          \<lparr>ticks := 1,
            safety_alerts :=
              [answered_alert\<lparr>status := ''responded_help'',
                 response_message := Some ''User requested help'',
                 responded_at := Some 20000000000\<rparr>]\<rparr>)"
proof -
  have f: "find (\<lambda>a. alert_id a = 3 \<and> user_id a = 7)
             (safety_alerts (world_with [] [] [answered_alert] ticking_clock)) =
           Some answered_alert"
    by (simp add: answered_alert_def)
  have st: "status answered_alert = ''responded_safe''"
    by (simp add: answered_alert_def)
  have upd: "responded_alert answered_alert (reply ''help'' None) 20000000000 =
             answered_alert\<lparr>status := ''responded_help'',
                 response_message := Some ''User requested help'',
                 responded_at := Some 20000000000\<rparr>"
    by (simp add: responded_alert_def message_or_def)
  have i: "alert_id answered_alert = 3" "user_id answered_alert = 7"
    by (simp_all add: answered_alert_def)
  show ?thesis
    unfolding respond_to_alert_found [OF f]
    by (simp add: st ticking_clock_def upd i)
qed

text \<open>
  C1, amended. Responding does not look at the alert's status. Whenever the user has an
  alert with the given id, active or not, the call succeeds: it stores the current time as
  the response time, and for "safe" or "help" it sets the status to responded_safe or
  responded_help with the message (or the canned one). It fails, with HTTP 404, only when
  the user has no alert with that id.
\<close>

theorem respond_ignores_status:
  "(find (\<lambda>a. alert_id a = aid \<and> user_id a = uid) (safety_alerts w) = Some alert \<longrightarrow>
      (\<exists>alert' w'.
         respond_to_alert w aid r uid =
           Inr ((''Alert response recorded: '' @ response r, aid), w') \<and>
         safety_alerts w' =
           update_first (\<lambda>a. alert_id a = aid \<and> user_id a = uid) alert' (safety_alerts w) \<and>
         find (\<lambda>a. alert_id a = aid \<and> user_id a = uid) (safety_alerts w') = Some alert' \<and>
         responded_at alert' = Some (clock w (ticks w)) \<and>
         (response r = ''safe'' \<longrightarrow>
            status alert' = ''responded_safe'' \<and>
            response_message alert' =
              Some (message_or (message r) ''User confirmed they are safe'')) \<and>
         (response r = ''help'' \<longrightarrow>
            status alert' = ''responded_help'' \<and>
            response_message alert' = Some (message_or (message r) ''User requested help'')))) \<and>
   (find (\<lambda>a. alert_id a = aid \<and> user_id a = uid) (safety_alerts w) = None \<longrightarrow>
      respond_to_alert w aid r uid = Inl (HTTPException 404 ''Alert not found''))"
proof (intro conjI impI)
  assume f: "find (\<lambda>a. alert_id a = aid \<and> user_id a = uid) (safety_alerts w) = Some alert"
  let ?P = "\<lambda>a. alert_id a = aid \<and> user_id a = uid"
  let ?a = "responded_alert alert r (clock w (ticks w))"
  let ?w = "w\<lparr>ticks := Suc (ticks w), safety_alerts := update_first ?P ?a (safety_alerts w)\<rparr>"
  have P: "?P ?a" using find_Some_holds [OF f] by simp
  have 1: "respond_to_alert w aid r uid =
             Inr ((''Alert response recorded: '' @ response r, aid), ?w)"
    by (rule respond_to_alert_found [OF f])
  have 2: "find ?P (safety_alerts ?w) = Some ?a"
    using find_update_first [OF f P] by simp
  have 3: "response r = ''safe'' \<longrightarrow>
            status ?a = ''responded_safe'' \<and>
            response_message ?a = Some (message_or (message r) ''User confirmed they are safe'')"
    by (simp add: responded_alert_def)
  have 4: "response r = ''help'' \<longrightarrow>
            status ?a = ''responded_help'' \<and>
            response_message ?a = Some (message_or (message r) ''User requested help'')"
    by (simp add: responded_alert_def)
  show "\<exists>alert' w'.
         respond_to_alert w aid r uid =
           Inr ((''Alert response recorded: '' @ response r, aid), w') \<and>
         safety_alerts w' = update_first ?P alert' (safety_alerts w) \<and>
         find ?P (safety_alerts w') = Some alert' \<and>
         responded_at alert' = Some (clock w (ticks w)) \<and>
         (response r = ''safe'' \<longrightarrow>
            status alert' = ''responded_safe'' \<and>
            response_message alert' =
              Some (message_or (message r) ''User confirmed they are safe'')) \<and>
         (response r = ''help'' \<longrightarrow>
            status alert' = ''responded_help'' \<and>
            response_message alert' = Some (message_or (message r) ''User requested help''))"
    using 1 2 3 4 by (intro exI [of _ ?a] exI [of _ ?w]) simp
next
  assume "find (\<lambda>a. alert_id a = aid \<and> user_id a = uid) (safety_alerts w) = None"
  then show "respond_to_alert w aid r uid = Inl (HTTPException 404 ''Alert not found'')"
    by (rule respond_to_alert_missing)
qed


lemma pending_alert_sel [simp]:
  "alert_id pending_alert = 4" "user_id pending_alert = 7"
  "status pending_alert = ''active''" "response_deadline pending_alert = 19900000000"
  "response_message pending_alert = None"
  by (simp_all add: pending_alert_def)

theorem respond_ignores_status_witness:
  "find (\<lambda>a. alert_id a = 4 \<and> user_id a = 7)
     (safety_alerts (world_with [] [] [pending_alert] ticking_clock)) = Some pending_alert \<and>
   (\<exists>alert' w'.
      respond_to_alert (world_with [] [] [pending_alert] ticking_clock) 4 (reply ''safe'' None) 7 =
        Inr ((''Alert response recorded: safe'', 4), w') \<and>
      find (\<lambda>a. alert_id a = 4 \<and> user_id a = 7) (safety_alerts w') = Some alert' \<and>
      responded_at alert' = Some 20000000000 \<and>
      status alert' = ''responded_safe'' \<and>
      response_message alert' = Some ''User confirmed they are safe'') \<and>
   find (\<lambda>a. alert_id a = 4 \<and> user_id a = 7)
     (safety_alerts (world_with [] [] [] ticking_clock)) = None \<and>
   respond_to_alert (world_with [] [] [] ticking_clock) 4 (reply ''safe'' None) 7 =
     Inl (HTTPException 404 ''Alert not found'')"
proof -
  let ?w = "world_with [] [] [pending_alert] ticking_clock"
  let ?e = "world_with [] [] [] ticking_clock"
  have f: "find (\<lambda>a. alert_id a = 4 \<and> user_id a = 7) (safety_alerts ?w) = Some pending_alert"
    by simp
  have n: "find (\<lambda>a. alert_id a = 4 \<and> user_id a = 7) (safety_alerts ?e) = None"
    by simp
  from respond_ignores_status [of 4 7 ?w pending_alert "reply ''safe'' None"] f
  have 1: "\<exists>alert' w'.
      respond_to_alert ?w 4 (reply ''safe'' None) 7 =
        Inr ((''Alert response recorded: safe'', 4), w') \<and>
      find (\<lambda>a. alert_id a = 4 \<and> user_id a = 7) (safety_alerts w') = Some alert' \<and>
      responded_at alert' = Some 20000000000 \<and>
      status alert' = ''responded_safe'' \<and>
      response_message alert' = Some ''User confirmed they are safe''"
    by (simp add: ticking_clock_def message_or_def) blast
  from respond_ignores_status [of 4 7 ?e pending_alert "reply ''safe'' None"] n
  have 2: "respond_to_alert ?e 4 (reply ''safe'' None) 7 =
             Inl (HTTPException 404 ''Alert not found'')"
    by simp
  from f 1 n 2 show ?thesis by blast
qed

text \<open>
  C10. For a response that is neither "safe" nor "help", responding to an alert of the user
  reports success, and the stored alert is the old one with only its response time
  overwritten by the current time: status and response message stay as they were.
\<close>

theorem respond_unknown_kind:
  assumes "find (\<lambda>a. alert_id a = aid \<and> user_id a = uid) (safety_alerts w) = Some alert"
    and "response r \<noteq> ''safe''" and "response r \<noteq> ''help''"
  shows "\<exists>w'. respond_to_alert w aid r uid =
                 Inr ((''Alert response recorded: '' @ response r, aid), w') \<and>
               safety_alerts w' =
                 update_first (\<lambda>a. alert_id a = aid \<and> user_id a = uid)
                   (alert\<lparr>responded_at := Some (clock w (ticks w))\<rparr>) (safety_alerts w) \<and>
               find (\<lambda>a. alert_id a = aid \<and> user_id a = uid) (safety_alerts w') =
                 Some (alert\<lparr>responded_at := Some (clock w (ticks w))\<rparr>)"
proof -
  let ?P = "\<lambda>a. alert_id a = aid \<and> user_id a = uid"
  let ?a = "alert\<lparr>responded_at := Some (clock w (ticks w))\<rparr>"
  have a: "responded_alert alert r (clock w (ticks w)) = ?a"
    using assms(2,3) by (simp add: responded_alert_def)
  have P: "?P ?a" using find_Some_holds [OF assms(1)] by simp
  have "find ?P (update_first ?P ?a (safety_alerts w)) = Some ?a"
    by (rule find_update_first [OF assms(1) P])
  then show ?thesis
    unfolding respond_to_alert_found [OF assms(1)] a by simp
qed

theorem respond_unknown_kind_witness:
  "find (\<lambda>a. alert_id a = 4 \<and> user_id a = 7)
     (safety_alerts (world_with [] [] [pending_alert] ticking_clock)) = Some pending_alert \<and>
   ''later'' \<noteq> ''safe'' \<and> ''later'' \<noteq> ''help'' \<and>
   (\<exists>w'. respond_to_alert (world_with [] [] [pending_alert] ticking_clock) 4
            (reply ''later'' (Some ''busy'')) 7 =
            Inr ((''Alert response recorded: later'', 4), w') \<and>
          safety_alerts w' = [pending_alert\<lparr>responded_at := Some 20000000000\<rparr>] \<and>
          status (hd (safety_alerts w')) = ''active'' \<and>
          response_message (hd (safety_alerts w')) = None)"
proof -
  let ?w = "world_with [] [] [pending_alert] ticking_clock"
  have f: "find (\<lambda>a. alert_id a = 4 \<and> user_id a = 7) (safety_alerts ?w) = Some pending_alert"
    by simp
  have k: "response (reply ''later'' (Some ''busy'')) \<noteq> ''safe''"
          "response (reply ''later'' (Some ''busy'')) \<noteq> ''help''"
    by simp_all
  from respond_unknown_kind [OF f k]
  obtain w' where
    1: "respond_to_alert ?w 4 (reply ''later'' (Some ''busy'')) 7 =
          Inr ((''Alert response recorded: '' @ response (reply ''later'' (Some ''busy'')), 4), w')"
    and 2: "safety_alerts w' =
              update_first (\<lambda>a. alert_id a = 4 \<and> user_id a = 7)
                (pending_alert\<lparr>responded_at := Some (clock ?w (ticks ?w))\<rparr>) (safety_alerts ?w)"
    by blast
  have 3: "safety_alerts w' = [pending_alert\<lparr>responded_at := Some 20000000000\<rparr>]"
    unfolding 2 by (simp add: ticking_clock_def)
  have "respond_to_alert ?w 4 (reply ''later'' (Some ''busy'')) 7 =
          Inr ((''Alert response recorded: later'', 4), w')"
    using 1 by simp
  with 3 have "\<exists>w'. respond_to_alert ?w 4 (reply ''later'' (Some ''busy'')) 7 =
            Inr ((''Alert response recorded: later'', 4), w') \<and>
          safety_alerts w' = [pending_alert\<lparr>responded_at := Some 20000000000\<rparr>] \<and>
          status (hd (safety_alerts w')) = ''active'' \<and>
          response_message (hd (safety_alerts w')) = None"
    by (intro exI [of _ w']) simp
  with f show ?thesis by simp
qed

text \<open>
  C2. On an active alert the deadline check succeeds, and the resulting status is escalated
  exactly when the time is after the response deadline and active exactly when it is not:
  one microsecond before the deadline, and at it, the alert stays active; one after, it is
  escalated.
\<close>

theorem checkDeadline_escalates_after_deadline:
  assumes "status alert = ''active''"
  shows "checkDeadline alert now =
           Inr (if response_deadline alert < now then alert\<lparr>status := ''escalated''\<rparr> else alert) \<and>
         (\<exists>alert'. checkDeadline alert now = Inr alert' \<and>
            (status alert' = ''escalated'' \<longleftrightarrow> response_deadline alert < now) \<and>
            (status alert' = ''active'' \<longleftrightarrow> now \<le> response_deadline alert))"
  using assms by (auto simp: checkDeadline_def)

theorem checkDeadline_escalates_after_deadline_witness:
  "status pending_alert = ''active'' \<and>
   checkDeadline pending_alert (response_deadline pending_alert - 1) = Inr pending_alert \<and>
   checkDeadline pending_alert (response_deadline pending_alert) = Inr pending_alert \<and>
   checkDeadline pending_alert (response_deadline pending_alert + 1) =
     Inr (pending_alert\<lparr>status := ''escalated''\<rparr>)"
proof -
  have a: "status pending_alert = ''active''" by simp
  from checkDeadline_escalates_after_deadline [OF a, of "response_deadline pending_alert - 1"]
       checkDeadline_escalates_after_deadline [OF a, of "response_deadline pending_alert"]
       checkDeadline_escalates_after_deadline [OF a, of "response_deadline pending_alert + 1"]
  show ?thesis by simp
qed

section \<open>The response deadline\<close>

lemma deviation_run_example:
  "check_deviation_alert calculate_distance_km (world_with [waypoint 11 0 180 5] [] [] ticking_clock)
     (sample 20 0 0 0 7 5) (trip_with 5 2) =
   Inr (Some (deviation_alert_of (world_with [waypoint 11 0 180 5] [] [] ticking_clock)
                (sample 20 0 0 0 7 5) (trip_with 5 2) (Fin (6371 * pi))),
        (world_with [waypoint 11 0 180 5] [] [] ticking_clock)
        \<lparr>ticks := 2,
          safety_alerts :=
            [deviation_alert_of (world_with [waypoint 11 0 180 5] [] [] ticking_clock)
               (sample 20 0 0 0 7 5) (trip_with 5 2) (Fin (6371 * pi))]\<rparr>)"
proof -
  let ?w = "world_with [waypoint 11 0 180 5] [] [] ticking_clock"
  have q: "query_planned_locations ?w (trip_with 5 2) = [waypoint 11 0 180 5]"
    by (simp add: query_planned_locations_def)
  have ne: "query_planned_locations ?w (trip_with 5 2) \<noteq> []"
    by (simp add: q)
  have d: "nearest_distance (distance_to 0 0) [waypoint 11 0 180 5] = 6371 * pi"
    by (simp add: nearest_distance_def distance_to_examples)
  have ret: "\<forall>l \<in> set (query_planned_locations ?w (trip_with 5 2)).
               calculate_distance_km (lu_latitude (sample 20 0 0 0 7 5))
                 (lu_longitude (sample 20 0 0 0 7 5)) (pl_latitude l) (pl_longitude l) =
               Inr (distance_to 0 0 l)"
    using exact_distance_to [of 0 0 "waypoint 11 0 180 5"] by (simp add: q)
  show ?thesis
    unfolding check_deviation_alert_nonempty
                [where routine = calculate_distance_km and ds = "distance_to 0 0", OF ne ret]
    using far_beyond_two by (simp add: q d Let_def)
qed

lemma deviation_alert_of_times:
  "triggered_at (deviation_alert_of w location_update trip d) = clock w (ticks w)"
  "response_deadline (deviation_alert_of w location_update trip d) =
     clock w (Suc (ticks w)) + minutes 15"
  by (simp_all add: deviation_alert_of_def)

lemma stationary_alert_of_times:
  "triggered_at (stationary_alert_of w uid trip latest d) = clock w (Suc (ticks w))"
  "response_deadline (stationary_alert_of w uid trip latest d) =
     clock w (Suc (Suc (ticks w))) + minutes 15"
  by (simp_all add: stationary_alert_of_def)

text \<open>
  C6, as stated, fails: the deviation check reads the clock once for the trigger time and
  once more for the deadline, so with a clock that has advanced by a microsecond in
  between, the deadline is not the trigger time plus 15 minutes.
\<close>

theorem deadline_from_later_clock_reading:
  "check_deviation_alert calculate_distance_km (world_with [waypoint 11 0 180 5] [] [] ticking_clock)
     (sample 20 0 0 0 7 5) (trip_with 5 2) =
   Inr (Some (deviation_alert_of (world_with [waypoint 11 0 180 5] [] [] ticking_clock)
                (sample 20 0 0 0 7 5) (trip_with 5 2) (Fin (6371 * pi))),
        (world_with [waypoint 11 0 180 5] [] [] ticking_clock)
        \<lparr>ticks := 2,
          safety_alerts :=
            [deviation_alert_of (world_with [waypoint 11 0 180 5] [] [] ticking_clock)
               (sample 20 0 0 0 7 5) (trip_with 5 2) (Fin (6371 * pi))]\<rparr>) \<and>
   triggered_at (deviation_alert_of (world_with [waypoint 11 0 180 5] [] [] ticking_clock)
                   (sample 20 0 0 0 7 5) (trip_with 5 2) (Fin (6371 * pi))) = 20000000000 \<and>
   response_deadline (deviation_alert_of (world_with [waypoint 11 0 180 5] [] [] ticking_clock)
                        (sample 20 0 0 0 7 5) (trip_with 5 2) (Fin (6371 * pi))) = 20900000001 \<and>
   response_deadline (deviation_alert_of (world_with [waypoint 11 0 180 5] [] [] ticking_clock)
                        (sample 20 0 0 0 7 5) (trip_with 5 2) (Fin (6371 * pi))) \<noteq>
   triggered_at (deviation_alert_of (world_with [waypoint 11 0 180 5] [] [] ticking_clock)
                   (sample 20 0 0 0 7 5) (trip_with 5 2) (Fin (6371 * pi))) + minutes 15"
  unfolding deviation_run_example
  by (simp add: deviation_alert_of_times ticking_clock_def minutes_def)

lemma deviation_result_cases:
  assumes "check_deviation_alert routine w location_update trip = Inr (res, w')"
  shows "case res of
      None \<Rightarrow> safety_alerts w' = safety_alerts w
    | Some alert \<Rightarrow>
        triggered_at alert = clock w (ticks w) \<and>
        response_deadline alert = clock w (Suc (ticks w)) + minutes 15 \<and>
        safety_alerts w' = safety_alerts w @ [alert]"
  using assms
  by (auto simp: check_deviation_alert_def Let_def utcnow_def add_alert_def
           split: if_splits sum.splits prod.splits)

lemma stationary_result_cases:
  assumes "check_stationary_alert routine w uid trip = Inr (res, w')"
  shows "case res of
      None \<Rightarrow> safety_alerts w' = safety_alerts w
    | Some alert \<Rightarrow>
        triggered_at alert = clock w (Suc (ticks w)) \<and>
        response_deadline alert = clock w (Suc (Suc (ticks w))) + minutes 15 \<and>
        safety_alerts w' = safety_alerts w @ [alert]"
  using assms
  by (auto simp: check_stationary_alert_def Let_def utcnow_def add_alert_def
           split: if_splits sum.splits prod.splits)

lemma respond_result_keeps_times:
  assumes "respond_to_alert w aid r uid = Inr (res, w')"
  shows "map response_deadline (safety_alerts w') = map response_deadline (safety_alerts w) \<and>
         map triggered_at (safety_alerts w') = map triggered_at (safety_alerts w)"
proof (cases "find (\<lambda>a. alert_id a = aid \<and> user_id a = uid) (safety_alerts w)")
  case None
  with assms show ?thesis by (simp add: respond_to_alert_missing)
next
  case (Some alert)
  from assms have "safety_alerts w' =
      update_first (\<lambda>a. alert_id a = aid \<and> user_id a = uid)
        (responded_alert alert r (clock w (ticks w))) (safety_alerts w)"
    unfolding respond_to_alert_found [OF Some] by auto
  then show ?thesis
    using map_update_first [OF Some, of response_deadline "responded_alert alert r (clock w (ticks w))"]
          map_update_first [OF Some, of triggered_at "responded_alert alert r (clock w (ticks w))"]
    by simp
qed

text \<open>
  C6, amended. An alert created by the deviation or the stationarity check has as trigger
  time one reading of the clock and as response deadline the next reading plus 15 minutes
  (so the deadline is the trigger time plus 15 minutes whenever the two readings agree),
  whatever the distance routine.
  The field is set at creation only: both checks leave the stored alerts as they are and
  at most append the new one, and responding to an alert changes no stored deadline or
  trigger time.
\<close>

theorem response_deadline_set_once:
  "(check_deviation_alert routine w location_update trip = Inr (res1, w1) \<longrightarrow>
      (case res1 of
         None \<Rightarrow> safety_alerts w1 = safety_alerts w
       | Some alert \<Rightarrow>
           triggered_at alert = clock w (ticks w) \<and>
           response_deadline alert = clock w (Suc (ticks w)) + minutes 15 \<and>
           safety_alerts w1 = safety_alerts w @ [alert])) \<and>
   (check_stationary_alert routine w uid trip = Inr (res2, w2) \<longrightarrow>
      (case res2 of
         None \<Rightarrow> safety_alerts w2 = safety_alerts w
       | Some alert \<Rightarrow>
           triggered_at alert = clock w (Suc (ticks w)) \<and>
           response_deadline alert = clock w (Suc (Suc (ticks w))) + minutes 15 \<and>
           safety_alerts w2 = safety_alerts w @ [alert])) \<and>
   (respond_to_alert w aid r uid' = Inr (res3, w3) \<longrightarrow>
      map response_deadline (safety_alerts w3) = map response_deadline (safety_alerts w) \<and>
      map triggered_at (safety_alerts w3) = map triggered_at (safety_alerts w))"
  using deviation_result_cases
          [where routine = routine and w = w and location_update = location_update
             and trip = trip and res = res1 and w' = w1]
        stationary_result_cases
          [where routine = routine and w = w and uid = uid and trip = trip and res = res2
             and w' = w2]
        respond_result_keeps_times [of w aid r uid' res3 w3]
  by blast


lemma stationary_run_example:
  "check_stationary_alert calculate_distance_km
     (world_with [waypoint 11 0 180 5]
        [sample 21 0 0 15000000000 7 5, sample 23 0 0 10000000000 7 5] [] ticking_clock)
     7 (trip_with 5 2) =
   Inr (Some (stationary_alert_of
                (world_with [waypoint 11 0 180 5]
                   [sample 21 0 0 15000000000 7 5, sample 23 0 0 10000000000 7 5] [] ticking_clock)
                7 (trip_with 5 2) (sample 21 0 0 15000000000 7 5) (Fin (6371 * pi))),
        (world_with [waypoint 11 0 180 5]
           [sample 21 0 0 15000000000 7 5, sample 23 0 0 10000000000 7 5] [] ticking_clock)
        \<lparr>ticks := 3,
          safety_alerts :=
            [stationary_alert_of
               (world_with [waypoint 11 0 180 5]
                  [sample 21 0 0 15000000000 7 5, sample 23 0 0 10000000000 7 5] [] ticking_clock)
               7 (trip_with 5 2) (sample 21 0 0 15000000000 7 5) (Fin (6371 * pi))]\<rparr>)"
proof -
  let ?w = "world_with [waypoint 11 0 180 5]
        [sample 21 0 0 15000000000 7 5, sample 23 0 0 10000000000 7 5] [] ticking_clock"
  have win: "recent_window ?w 7 (trip_with 5 2) =
               [sample 21 0 0 15000000000 7 5, sample 23 0 0 10000000000 7 5]"
    using sort_two_desc [of "[waypoint 11 0 180 5]" 0 0 0 0 "[]" 2]
    by (simp add: recent_window_def)
  have q: "query_planned_locations ?w (trip_with 5 2) = [waypoint 11 0 180 5]"
    by (simp add: query_planned_locations_def)
  have d: "nearest_distance (distance_to 0 0) [waypoint 11 0 180 5] = 6371 * pi"
    by (simp add: nearest_distance_def distance_to_examples)
  have still: "\<forall>l \<in> set (tl (recent_window ?w 7 (trip_with 5 2))).
           \<exists>d. calculate_distance_km (lu_latitude (hd (recent_window ?w 7 (trip_with 5 2))))
                  (lu_longitude (hd (recent_window ?w 7 (trip_with 5 2))))
                  (lu_latitude l) (lu_longitude l) = Inr d \<and> d \<le> 0.5"
    by (simp add: win calculate_distance_km_eq haversine_km_same)
  have len: "2 \<le> length (recent_window ?w 7 (trip_with 5 2))"
    by (simp add: win)
  have ret: "\<forall>p \<in> set (query_planned_locations ?w (trip_with 5 2)).
           calculate_distance_km (lu_latitude (hd (recent_window ?w 7 (trip_with 5 2))))
             (lu_longitude (hd (recent_window ?w 7 (trip_with 5 2))))
             (pl_latitude p) (pl_longitude p) = Inr (distance_to 0 0 p)"
    using exact_distance_to [of 0 0 "waypoint 11 0 180 5"] by (simp add: q win)
  have far: "(1::real) < 6371 * pi"
    using pi_ge_two by linarith
  show ?thesis
    unfolding check_stationary_alert_still
                [where routine = calculate_distance_km and ds = "distance_to 0 0",
                 OF len still ret]
    using far by (simp add: q win d Let_def)
qed

theorem response_deadline_set_once_witness:
  "check_deviation_alert calculate_distance_km (world_with [waypoint 11 0 180 5] [] [] ticking_clock)
     (sample 20 0 0 0 7 5) (trip_with 5 2) =
   Inr (Some (deviation_alert_of (world_with [waypoint 11 0 180 5] [] [] ticking_clock)
                (sample 20 0 0 0 7 5) (trip_with 5 2) (Fin (6371 * pi))),
        (world_with [waypoint 11 0 180 5] [] [] ticking_clock)
        \<lparr>ticks := 2,
          safety_alerts :=
            [deviation_alert_of (world_with [waypoint 11 0 180 5] [] [] ticking_clock)
               (sample 20 0 0 0 7 5) (trip_with 5 2) (Fin (6371 * pi))]\<rparr>) \<and>
   triggered_at (deviation_alert_of (world_with [waypoint 11 0 180 5] [] [] ticking_clock)
                   (sample 20 0 0 0 7 5) (trip_with 5 2) (Fin (6371 * pi))) = ticking_clock 0 \<and>
   response_deadline (deviation_alert_of (world_with [waypoint 11 0 180 5] [] [] ticking_clock)
                        (sample 20 0 0 0 7 5) (trip_with 5 2) (Fin (6371 * pi))) =
     ticking_clock 1 + minutes 15 \<and>
   check_stationary_alert calculate_distance_km
     (world_with [waypoint 11 0 180 5]
        [sample 21 0 0 15000000000 7 5, sample 23 0 0 10000000000 7 5] [] ticking_clock)
     7 (trip_with 5 2) =
   Inr (Some (stationary_alert_of
                (world_with [waypoint 11 0 180 5]
                   [sample 21 0 0 15000000000 7 5, sample 23 0 0 10000000000 7 5] [] ticking_clock)
                7 (trip_with 5 2) (sample 21 0 0 15000000000 7 5) (Fin (6371 * pi))),
        (world_with [waypoint 11 0 180 5]
           [sample 21 0 0 15000000000 7 5, sample 23 0 0 10000000000 7 5] [] ticking_clock)
        \<lparr>ticks := 3,
          safety_alerts :=
            [stationary_alert_of
               (world_with [waypoint 11 0 180 5]
                  [sample 21 0 0 15000000000 7 5, sample 23 0 0 10000000000 7 5] [] ticking_clock)
               7 (trip_with 5 2) (sample 21 0 0 15000000000 7 5) (Fin (6371 * pi))]\<rparr>) \<and>
   triggered_at (stationary_alert_of
                (world_with [waypoint 11 0 180 5]
                   [sample 21 0 0 15000000000 7 5, sample 23 0 0 10000000000 7 5] [] ticking_clock)
                7 (trip_with 5 2) (sample 21 0 0 15000000000 7 5) (Fin (6371 * pi))) =
     ticking_clock 1 \<and>
   response_deadline (stationary_alert_of
                (world_with [waypoint 11 0 180 5]
                   [sample 21 0 0 15000000000 7 5, sample 23 0 0 10000000000 7 5] [] ticking_clock)
                7 (trip_with 5 2) (sample 21 0 0 15000000000 7 5) (Fin (6371 * pi))) =
     ticking_clock 2 + minutes 15 \<and>
   respond_to_alert (world_with [] [] [pending_alert] ticking_clock) 4 (reply ''safe'' None) 7 =
     Inr ((''Alert response recorded: safe'', 4),
          (world_with [] [] [pending_alert] ticking_clock)
          \<lparr>ticks := 1,
            safety_alerts :=
              [responded_alert pending_alert (reply ''safe'' None) (ticking_clock 0)]\<rparr>) \<and>
   map response_deadline
     (safety_alerts ((world_with [] [] [pending_alert] ticking_clock)
          \<lparr>ticks := 1,
            safety_alerts :=
              [responded_alert pending_alert (reply ''safe'' None) (ticking_clock 0)]\<rparr>)) =
     [response_deadline pending_alert]"
proof -
  let ?wd = "world_with [waypoint 11 0 180 5] [] [] ticking_clock"
  let ?ad = "deviation_alert_of ?wd (sample 20 0 0 0 7 5) (trip_with 5 2) (Fin (6371 * pi))"
  let ?wd' = "?wd\<lparr>ticks := 2, safety_alerts := [?ad]\<rparr>"
  let ?ws = "world_with [waypoint 11 0 180 5]
        [sample 21 0 0 15000000000 7 5, sample 23 0 0 10000000000 7 5] [] ticking_clock"
  let ?as = "stationary_alert_of ?ws 7 (trip_with 5 2) (sample 21 0 0 15000000000 7 5)
               (Fin (6371 * pi))"
  let ?ws' = "?ws\<lparr>ticks := 3, safety_alerts := [?as]\<rparr>"
  let ?wr = "world_with [] [] [pending_alert] ticking_clock"
  let ?ar = "responded_alert pending_alert (reply ''safe'' None) (ticking_clock 0)"
  let ?wr' = "?wr\<lparr>ticks := 1, safety_alerts := [?ar]\<rparr>"
  have dev: "check_deviation_alert calculate_distance_km ?wd (sample 20 0 0 0 7 5) (trip_with 5 2) = Inr (Some ?ad, ?wd')"
    by (rule deviation_run_example)
  have sta: "check_stationary_alert calculate_distance_km ?ws 7 (trip_with 5 2) = Inr (Some ?as, ?ws')"
    by (rule stationary_run_example)
  have f: "find (\<lambda>a. alert_id a = 4 \<and> user_id a = 7) (safety_alerts ?wr) = Some pending_alert"
    by simp
  have res: "respond_to_alert ?wr 4 (reply ''safe'' None) 7 =
               Inr ((''Alert response recorded: safe'', 4), ?wr')"
    unfolding respond_to_alert_found [OF f] by simp
  have 1: "triggered_at ?ad = ticking_clock 0 \<and>
           response_deadline ?ad = ticking_clock 1 + minutes 15"
    using response_deadline_set_once
            [where routine = calculate_distance_km and w = ?wd
               and location_update = "sample 20 0 0 0 7 5" and trip = "trip_with 5 2"
               and ?res1.0 = "Some ?ad" and ?w1.0 = ?wd'] dev
    by simp
  have 2: "triggered_at ?as = ticking_clock 1 \<and>
           response_deadline ?as = ticking_clock 2 + minutes 15"
    using response_deadline_set_once
            [where routine = calculate_distance_km and w = ?ws and uid = 7
               and trip = "trip_with 5 2"
               and ?res2.0 = "Some ?as" and ?w2.0 = ?ws'] sta
    by (simp add: numeral_2_eq_2)
  have 3: "map response_deadline (safety_alerts ?wr') = [response_deadline pending_alert]"
    using response_deadline_set_once
            [where w = ?wr and aid = 4 and r = "reply ''safe'' None" and uid' = 7
               and ?res3.0 = "(''Alert response recorded: safe'', 4)" and ?w3.0 = ?wr'] res
    by simp
  from dev sta res 1 2 3 show ?thesis by blast
qed

end
